theory Spec2Isabelle
  imports Main
begin

section \<open>Objects, kinds and errors\<close>

text \<open>
  The syncer handles \<^verbatim>\<open>*unstructured.Unstructured\<close> objects of the Kubernetes client
  library. The library is not part of the repository, so an object is modelled by the
  view the syncer's code takes of it: its group/version/kind, the metadata read and
  written through the accessors (\<^verbatim>\<open>GetNamespace\<close>, \<^verbatim>\<open>GetName\<close>, \<^verbatim>\<open>SetUID\<close>,
  \<^verbatim>\<open>SetGeneration\<close>, \<^verbatim>\<open>SetResourceVersion\<close>), and the typed fields that
  \<^verbatim>\<open>mutatePV\<close>, \<^verbatim>\<open>mutatePods\<close> and \<^verbatim>\<open>filterPods\<close> read after converting the object
  to \<^verbatim>\<open>v1.PersistentVolume\<close> or \<^verbatim>\<open>v1.Pod\<close>. A metadata field that is unset reads
  as the zero value of its Go type (the empty string, 0), as the accessors return it.
\<close>

record GroupVersionKind =
  gvkGroup :: string
  gvkVersion :: string
  gvkKind :: string

record GroupVersionResource =
  Group :: string
  Version :: string
  Resource :: string

text \<open>\<^verbatim>\<open>v1.ObjectReference\<close>, the type of \<^verbatim>\<open>pv.Spec.ClaimRef\<close> (behind a pointer).\<close>

record ObjectReference =
  refKind :: string
  refNamespace :: string
  refName :: string
  refUID :: string
  refAPIVersion :: string
  refResourceVersion :: string
  refFieldPath :: string

text \<open>
  \<open>decodable\<close> says whether \<^verbatim>\<open>DefaultUnstructuredConverter.FromUnstructured\<close> accepts
  the content for the typed struct (it returns an error on content of the wrong JSON
  type). \<open>ClaimRef\<close> is \<open>None\<close> for the nil pointer.
\<close>

record unstructured =
  gvk :: GroupVersionKind
  Namespace :: string
  Name :: string
  UID :: string
  Generation :: int
  ResourceVersion :: string
  decodable :: bool
  NodeName :: string
  ServiceAccountName :: string
  Phase :: string
  ClaimRef :: "ObjectReference option"

text \<open>
  The accessors of \<^verbatim>\<open>unstructured.Unstructured\<close> that the syncer calls. The Go setters
  change the object in place; here they return the changed object.
\<close>

definition GetNamespace :: "unstructured \<Rightarrow> string" where
  "GetNamespace resource = Namespace resource"

definition GetName :: "unstructured \<Rightarrow> string" where
  "GetName resource = Name resource"

definition GetUID :: "unstructured \<Rightarrow> string" where
  "GetUID resource = UID resource"

definition GetGeneration :: "unstructured \<Rightarrow> int" where
  "GetGeneration resource = Generation resource"

definition GetResourceVersion :: "unstructured \<Rightarrow> string" where
  "GetResourceVersion resource = ResourceVersion resource"

definition SetUID :: "string \<Rightarrow> unstructured \<Rightarrow> unstructured" where
  "SetUID u resource = resource\<lparr>UID := u\<rparr>"

definition SetGeneration :: "int \<Rightarrow> unstructured \<Rightarrow> unstructured" where
  "SetGeneration n resource = resource\<lparr>Generation := n\<rparr>"

definition SetResourceVersion :: "string \<Rightarrow> unstructured \<Rightarrow> unstructured" where
  "SetResourceVersion v resource = resource\<lparr>ResourceVersion := v\<rparr>"

text \<open>
  Errors. \<open>Errorf msg e\<close> is \<^verbatim>\<open>xerrors.Errorf(msg + ": %w", e)\<close>, which wraps \<open>e\<close>;
  \<^verbatim>\<open>errors.IsNotFound\<close> and \<^verbatim>\<open>errors.IsAlreadyExists\<close> of apimachinery look through
  the wrapping for an API status error and compare its reason.
\<close>

datatype StatusReason = StatusReasonNotFound | StatusReasonAlreadyExists | StatusReasonOther string

datatype error =
    StatusError StatusReason
  | NoKindMatchError
  | ConversionError
  | OtherError string
  | Errorf string error

fun IsNotFound :: "error \<Rightarrow> bool" where
  "IsNotFound (StatusError r) = (r = StatusReasonNotFound)"
| "IsNotFound (Errorf msg e) = IsNotFound e"
| "IsNotFound NoKindMatchError = False"
| "IsNotFound ConversionError = False"
| "IsNotFound (OtherError msg) = False"

fun IsAlreadyExists :: "error \<Rightarrow> bool" where
  "IsAlreadyExists (StatusError r) = (r = StatusReasonAlreadyExists)"
| "IsAlreadyExists (Errorf msg e) = IsAlreadyExists e"
| "IsAlreadyExists NoKindMatchError = False"
| "IsAlreadyExists ConversionError = False"
| "IsAlreadyExists (OtherError msg) = False"

text \<open>The outcome of a Go function that returns a value or an error, or panics.\<close>

datatype 'a result = Ok 'a | Err error | Panic

section \<open>The syncer: \<^verbatim>\<open>simulator/syncer\<close>\<close>

text \<open>\<^verbatim>\<open>type Event int; const (Add Event = iota; Update)\<close>\<close>

datatype Event = Add | Update

text \<open>
  The clients. Of the source's dynamic client the code uses
  \<^verbatim>\<open>Resource(gvr).Namespace(ns).Get(ctx, name, ...)\<close>; of the destination's it uses
  \<^verbatim>\<open>Create\<close>, \<^verbatim>\<open>Update\<close> and \<^verbatim>\<open>Delete\<close>, which change the destination's state
  \<open>'d\<close> and return an error or nil. \<open>DestGet\<close> is the destination's \<^verbatim>\<open>Get\<close>; the
  syncer never calls it. The REST mapper resolves a kind to its resource.
\<close>

type_synonym SrcClient = "GroupVersionResource \<Rightarrow> string \<Rightarrow> string \<Rightarrow> error + unstructured"

record 'd DestClient =
  DestCreate :: "GroupVersionResource \<Rightarrow> string \<Rightarrow> unstructured \<Rightarrow> 'd \<Rightarrow> error option \<times> 'd"
  DestUpdate :: "GroupVersionResource \<Rightarrow> string \<Rightarrow> unstructured \<Rightarrow> 'd \<Rightarrow> error option \<times> 'd"
  DestDelete :: "GroupVersionResource \<Rightarrow> string \<Rightarrow> string \<Rightarrow> 'd \<Rightarrow> error option \<times> 'd"
  DestGet :: "GroupVersionResource \<Rightarrow> string \<Rightarrow> string \<Rightarrow> 'd \<Rightarrow> error + unstructured"

record 'd Clients =
  SrcDynamicClient :: SrcClient
  DestDynamicClient :: "'d DestClient"
  RestMapper :: "GroupVersionKind \<Rightarrow> error + GroupVersionResource"

text \<open>
  \<^verbatim>\<open>FilteringFunction\<close> returns \<^verbatim>\<open>(bool, error)\<close>; \<^verbatim>\<open>MutatingFunction\<close> returns
  the mutated object or an error (\<^verbatim>\<open>mutatePV\<close> can also panic). A registered function
  is a function of its arguments: through \<open>clients\<close> it can read the source, it changes
  nothing.
\<close>

type_synonym 'd FilteringFunction =
  "unstructured \<Rightarrow> 'd Clients \<Rightarrow> Event \<Rightarrow> bool \<times> error option"

type_synonym 'd MutatingFunction =
  "unstructured \<Rightarrow> 'd Clients \<Rightarrow> Event \<Rightarrow> unstructured result"

record 'd Service =
  clients :: "'d Clients"
  gvrs :: "GroupVersionResource list"
  mutatingFunctions :: "GroupVersionResource \<rightharpoonup> 'd MutatingFunction"
  filteringFunctions :: "GroupVersionResource \<rightharpoonup> 'd FilteringFunction"

record 'd Options =
  GVRsToSync :: "GroupVersionResource list option"
  AdditionalMutatingFunctions :: "GroupVersionResource \<rightharpoonup> 'd MutatingFunction"
  AdditionalFilteringFunctions :: "GroupVersionResource \<rightharpoonup> 'd FilteringFunction"

subsection \<open>\<^verbatim>\<open>resource.go\<close>\<close>

definition gvr :: "string \<Rightarrow> string \<Rightarrow> string \<Rightarrow> GroupVersionResource" where
  "gvr g v r = \<lparr>Group = g, Version = v, Resource = r\<rparr>"

definition MandatoryGVRs :: "GroupVersionResource list" where
  "MandatoryGVRs =
     [gvr '''' ''v1'' ''namespaces'',
      gvr ''scheduling.k8s.io'' ''v1'' ''priorityclasses'',
      gvr ''storage.k8s.io'' ''v1'' ''storageclasses'',
      gvr '''' ''v1'' ''persistentvolumeclaims'',
      gvr '''' ''v1'' ''nodes'',
      gvr '''' ''v1'' ''persistentvolumes'',
      gvr '''' ''v1'' ''pods'']"

text \<open>
  The typed converter. \<^verbatim>\<open>FromUnstructured\<close> fails on content it cannot decode;
  the typed struct is kept as the same record, and \<^verbatim>\<open>ToUnstructured\<close> of a typed
  struct does not fail.
\<close>

definition FromUnstructured :: "unstructured \<Rightarrow> error + unstructured" where
  "FromUnstructured resource = (if decodable resource then Inr resource else Inl ConversionError)"

definition ToUnstructured :: "unstructured \<Rightarrow> unstructured" where
  "ToUnstructured typed = typed"

definition VolumeBound :: string where
  "VolumeBound = ''Bound''"

text \<open>
  \<^verbatim>\<open>mutatePV\<close>. In the Bound branch \<^verbatim>\<open>pv.Spec.ClaimRef.Namespace\<close> dereferences the
  pointer \<^verbatim>\<open>pv.Spec.ClaimRef\<close>: a nil pointer panics. The claim is read from
  \<^verbatim>\<open>clients.SrcDynamicClient\<close>.
\<close>

definition mutatePV :: "'d MutatingFunction" where
  "mutatePV resource cl event =
     (case FromUnstructured resource of
        Inl err \<Rightarrow> Err err
      | Inr pv \<Rightarrow>
          if Phase pv = VolumeBound then
            (case ClaimRef pv of
               None \<Rightarrow> Panic
             | Some claimRef \<Rightarrow>
                 (case SrcDynamicClient cl (gvr '''' ''v1'' ''persistentvolumeclaims'')
                         (refNamespace claimRef) (refName claimRef) of
                    Inl err \<Rightarrow> Err err
                  | Inr pvc \<Rightarrow>
                      Ok (ToUnstructured (pv\<lparr>ClaimRef := Some (claimRef\<lparr>refUID := GetUID pvc\<rparr>)\<rparr>))))
          else Ok (ToUnstructured pv))"

definition mutatePods :: "'d MutatingFunction" where
  "mutatePods resource cl event =
     (case FromUnstructured resource of
        Inl err \<Rightarrow> Err err
      | Inr pod \<Rightarrow> Ok (ToUnstructured (pod\<lparr>ServiceAccountName := ''default''\<rparr>)))"

text \<open>\<^verbatim>\<open>filterPods\<close>; the info line it logs for a scheduled pod is left out.\<close>

definition filterPods :: "'d FilteringFunction" where
  "filterPods resource cl event =
     (if event \<noteq> Update then (True, None)
      else (case FromUnstructured resource of
              Inl err \<Rightarrow> (False, Some err)
            | Inr pod \<Rightarrow> if NodeName pod \<noteq> '''' then (False, None) else (True, None)))"

text \<open>
  The package-level maps \<^verbatim>\<open>MandatoryMutatingFunctions\<close> and
  \<^verbatim>\<open>MandatoryFilteringFunctions\<close> are variables: \<^verbatim>\<open>New\<close> assigns them (a Go map is
  a reference) to the service and then writes the additional entries into them. They
  are the state \<open>globals\<close>; \<open>initialGlobals\<close> is their value at program start.
\<close>

record 'd globals =
  MandatoryMutatingFunctions :: "GroupVersionResource \<rightharpoonup> 'd MutatingFunction"
  MandatoryFilteringFunctions :: "GroupVersionResource \<rightharpoonup> 'd FilteringFunction"

definition initialGlobals :: "'d globals" where
  "initialGlobals =
     \<lparr>MandatoryMutatingFunctions =
        [gvr '''' ''v1'' ''persistentvolumes'' \<mapsto> mutatePV,
         gvr '''' ''v1'' ''pods'' \<mapsto> mutatePods],
      MandatoryFilteringFunctions = [gvr '''' ''v1'' ''pods'' \<mapsto> filterPods]\<rparr>"

subsection \<open>\<^verbatim>\<open>syncer.go\<close>\<close>

text \<open>
  \<^verbatim>\<open>New\<close>. Ranging over the additional map and assigning each entry is \<open>++\<close>: an
  additional entry takes the place of the entry with the same key. The service's maps
  and the package-level maps are the same Go maps afterwards.
\<close>

definition New ::
  "SrcClient \<Rightarrow> 'd DestClient \<Rightarrow> (GroupVersionKind \<Rightarrow> error + GroupVersionResource) \<Rightarrow>
   'd Options \<Rightarrow> 'd globals \<Rightarrow> 'd Service \<times> 'd globals" where
  "New srcDynamicClient destDynamicClient restMapper options g =
     (let mf = MandatoryMutatingFunctions g ++ AdditionalMutatingFunctions options;
          ff = MandatoryFilteringFunctions g ++ AdditionalFilteringFunctions options
      in (\<lparr>clients = \<lparr>SrcDynamicClient = srcDynamicClient,
                       DestDynamicClient = destDynamicClient,
                       RestMapper = restMapper\<rparr>,
            gvrs = (case GVRsToSync options of Some l \<Rightarrow> l | None \<Rightarrow> MandatoryGVRs),
            mutatingFunctions = mf,
            filteringFunctions = ff\<rparr>,
          \<lparr>MandatoryMutatingFunctions = mf, MandatoryFilteringFunctions = ff\<rparr>))"

text \<open>
  What a handler does to the outside is returned in order: the calls of registered
  functions, the requests sent to the destination, the log lines (\<^verbatim>\<open>klog.Error\<close>,
  \<^verbatim>\<open>klog.ErrorS\<close>, \<^verbatim>\<open>klog.Info\<close>), and a panic that leaves the handler.
\<close>

datatype effect =
    FilterCall GroupVersionResource Event unstructured
  | MutateCall GroupVersionResource Event unstructured
  | CreateRequest GroupVersionResource string unstructured
  | UpdateRequest GroupVersionResource string unstructured
  | DeleteRequest GroupVersionResource string string
  | LogError string
  | LogErrorS error string
  | LogInfo string error
  | Crash

text \<open>
  \<^verbatim>\<open>removeUnnecessaryMetadata\<close> sets the three fields on the object it is given and
  returns it.
\<close>

definition removeUnnecessaryMetadata :: "unstructured \<Rightarrow> unstructured" where
  "removeUnnecessaryMetadata resource =
     SetResourceVersion '''' (SetGeneration 0 (SetUID '''' resource))"

definition findGVRForGVK :: "'d Service \<Rightarrow> GroupVersionKind \<Rightarrow> error + GroupVersionResource" where
  "findGVRForGVK s k = (case RestMapper (clients s) k of Inl err \<Rightarrow> Inl err | Inr m \<Rightarrow> Inr m)"

text \<open>
  The filtering step shared by the create and update paths:
  \<^verbatim>\<open>if filteringFn, ok := s.filteringFunctions[gvr]; ok {
       if ok, err := filteringFn(ctx, resource, s.clients, event); !ok || err != nil { return err } }\<close>.
  \<open>Some ret\<close> is the early return of \<open>ret\<close>, \<open>None\<close> goes on.
\<close>

definition runFilteringFunction ::
  "'d Service \<Rightarrow> GroupVersionResource \<Rightarrow> unstructured \<Rightarrow> Event \<Rightarrow>
   unit result option \<times> effect list" where
  "runFilteringFunction s r resource event =
     (case filteringFunctions s r of
        None \<Rightarrow> (None, [])
      | Some filteringFn \<Rightarrow>
          (case filteringFn resource (clients s) event of
             (ok, err) \<Rightarrow>
               if \<not> ok \<or> err \<noteq> None
               then (Some (case err of None \<Rightarrow> Ok () | Some e \<Rightarrow> Err e),
                     [FilterCall r event resource])
               else (None, [FilterCall r event resource])))"

text \<open>
  The mutating step shared by the create and update paths:
  \<^verbatim>\<open>if mutatingFn, ok := s.mutatingFunctions[gvr]; ok {
       resource, err = mutatingFn(ctx, resource, s.clients, event)
       if err != nil { return xerrors.Errorf("failed to mutate resource: %w", err) } }\<close>.
\<close>

definition runMutatingFunction ::
  "'d Service \<Rightarrow> GroupVersionResource \<Rightarrow> unstructured \<Rightarrow> Event \<Rightarrow>
   unstructured result \<times> effect list" where
  "runMutatingFunction s r resource event =
     (case mutatingFunctions s r of
        None \<Rightarrow> (Ok resource, [])
      | Some mutatingFn \<Rightarrow>
          (case mutatingFn resource (clients s) event of
             Ok resource' \<Rightarrow> (Ok resource', [MutateCall r event resource])
           | Err err \<Rightarrow>
               (Err (Errorf ''failed to mutate resource'' err), [MutateCall r event resource])
           | Panic \<Rightarrow> (Panic, [MutateCall r event resource])))"

text \<open>
  The three paths take the destination's state and return the function's result, the
  destination's new state and the effects in order.
\<close>

definition createResourceOnDestinationCluster ::
  "'d Service \<Rightarrow> unstructured \<Rightarrow> 'd \<Rightarrow> unit result \<times> 'd \<times> effect list" where
  "createResourceOnDestinationCluster s resource d =
     (case findGVRForGVK s (gvk resource) of
        Inl err \<Rightarrow> (Err err, d, [])
      | Inr r \<Rightarrow>
          (let namespace = GetNamespace resource in
           case runFilteringFunction s r resource Add of
             (Some ret, fe) \<Rightarrow> (ret, d, fe)
           | (None, fe) \<Rightarrow>
               (case runMutatingFunction s r (removeUnnecessaryMetadata resource) Add of
                  (Err err, me) \<Rightarrow> (Err err, d, fe @ me)
                | (Panic, me) \<Rightarrow> (Panic, d, fe @ me)
                | (Ok resource', me) \<Rightarrow>
                    (case DestCreate (DestDynamicClient (clients s)) r namespace resource' d of
                       (err, d') \<Rightarrow>
                         (case err of
                            Some e \<Rightarrow> Err (Errorf ''failed to create resource'' e)
                          | None \<Rightarrow> Ok (),
                          d', fe @ me @ [CreateRequest r namespace resource'])))))"

definition updateResourceOnDestinationCluster ::
  "'d Service \<Rightarrow> unstructured \<Rightarrow> 'd \<Rightarrow> unit result \<times> 'd \<times> effect list" where
  "updateResourceOnDestinationCluster s resource d =
     (case findGVRForGVK s (gvk resource) of
        Inl err \<Rightarrow> (Err err, d, [])
      | Inr r \<Rightarrow>
          (let namespace = GetNamespace resource in
           case runFilteringFunction s r resource Update of
             (Some ret, fe) \<Rightarrow> (ret, d, fe)
           | (None, fe) \<Rightarrow>
               (case runMutatingFunction s r resource Update of
                  (Err err, me) \<Rightarrow> (Err err, d, fe @ me)
                | (Panic, me) \<Rightarrow> (Panic, d, fe @ me)
                | (Ok resource', me) \<Rightarrow>
                    (case DestUpdate (DestDynamicClient (clients s)) r namespace resource' d of
                       (err, d') \<Rightarrow>
                         (case err of
                            Some e \<Rightarrow> Err (Errorf ''failed to create resource'' e)
                          | None \<Rightarrow> Ok (),
                          d', fe @ me @ [UpdateRequest r namespace resource'])))))"

definition deleteResourceOnDestinationCluster ::
  "'d Service \<Rightarrow> unstructured \<Rightarrow> 'd \<Rightarrow> unit result \<times> 'd \<times> effect list" where
  "deleteResourceOnDestinationCluster s resource d =
     (case findGVRForGVK s (gvk resource) of
        Inl err \<Rightarrow> (Err err, d, [])
      | Inr r \<Rightarrow>
          (let namespace = GetNamespace resource in
           case DestDelete (DestDynamicClient (clients s)) r namespace (GetName resource) d of
             (err, d') \<Rightarrow>
               (case err of
                  Some e \<Rightarrow> Err (Errorf ''failed to delete resource'' e)
                | None \<Rightarrow> Ok (),
                d', [DeleteRequest r namespace (GetName resource)])))"

text \<open>
  The informer hands the handlers an \<^verbatim>\<open>interface{}\<close>; the handlers assert
  \<^verbatim>\<open>*unstructured.Unstructured\<close> and log an error when the assertion fails.
\<close>

datatype informerObject = Unstructured unstructured | NotUnstructured

definition addFunc :: "'d Service \<Rightarrow> informerObject \<Rightarrow> 'd \<Rightarrow> 'd \<times> effect list" where
  "addFunc s obj d =
     (case obj of
        NotUnstructured \<Rightarrow>
          (d, [LogError ''Failed to convert runtime.Object to *unstructured.Unstructured''])
      | Unstructured unstructObj \<Rightarrow>
          (case createResourceOnDestinationCluster s unstructObj d of
             (Ok u, d', effs) \<Rightarrow> (d', effs)
           | (Err err, d', effs) \<Rightarrow>
               (d', effs @ [LogErrorS err ''Failed to create resource on destination cluster''])
           | (Panic, d', effs) \<Rightarrow> (d', effs @ [Crash])))"

definition updateFunc :: "'d Service \<Rightarrow> informerObject \<Rightarrow> informerObject \<Rightarrow> 'd \<Rightarrow> 'd \<times> effect list" where
  "updateFunc s oldObj newObj d =
     (case newObj of
        NotUnstructured \<Rightarrow>
          (d, [LogError ''Failed to convert runtime.Object to *unstructured.Unstructured''])
      | Unstructured unstructObj \<Rightarrow>
          (case updateResourceOnDestinationCluster s unstructObj d of
             (Ok u, d', effs) \<Rightarrow> (d', effs)
           | (Err err, d', effs) \<Rightarrow>
               if IsNotFound err
               then (d', effs @ [LogInfo ''Skipped to update resource on destination: '' err])
               else (d', effs @ [LogErrorS err ''Failed to update resource on destination cluster''])
           | (Panic, d', effs) \<Rightarrow> (d', effs @ [Crash])))"

definition deleteFunc :: "'d Service \<Rightarrow> informerObject \<Rightarrow> 'd \<Rightarrow> 'd \<times> effect list" where
  "deleteFunc s obj d =
     (case obj of
        NotUnstructured \<Rightarrow>
          (d, [LogError ''Failed to convert runtime.Object to *unstructured.Unstructured''])
      | Unstructured unstructObj \<Rightarrow>
          (case deleteResourceOnDestinationCluster s unstructObj d of
             (Ok u, d', effs) \<Rightarrow> (d', effs)
           | (Err err, d', effs) \<Rightarrow>
               if IsNotFound err
               then (d', effs @ [LogInfo ''Skipped to delete resource on destination: '' err])
               else (d', effs @ [LogErrorS err ''Failed to delete resource on destination cluster''])
           | (Panic, d', effs) \<Rightarrow> (d', effs @ [Crash])))"

text \<open>
  \<^verbatim>\<open>Run\<close> registers the three handlers on the informer of every resource of
  \<^verbatim>\<open>s.gvrs\<close>; a notification of the informer is dispatched to its handler.
\<close>

datatype notification =
    OnAdd informerObject
  | OnUpdate informerObject informerObject
  | OnDelete informerObject

fun handle :: "'d Service \<Rightarrow> notification \<Rightarrow> 'd \<Rightarrow> 'd \<times> effect list" where
  "handle s (OnAdd obj) d = addFunc s obj d"
| "handle s (OnUpdate oldObj newObj) d = updateFunc s oldObj newObj d"
| "handle s (OnDelete obj) d = deleteFunc s obj d"

section \<open>The journal: \<^verbatim>\<open>simulator/recorder\<close> and \<^verbatim>\<open>simulator/replayer\<close>\<close>

text \<open>
  The recorder and the replayer never look inside an object: it is the JSON value that
  \<^verbatim>\<open>unstructured.Unstructured\<close> holds and that the journal file stores.
\<close>

datatype json =
    JNull
  | JBool bool
  | JNumber int
  | JString string
  | JArray "json list"
  | JObject "(string \<times> json) list"

text \<open>
  Modelled from the spec: the type \<^verbatim>\<open>recorder.Event\<close>, whose declaration is not in the
  available sources (the tests use \<^verbatim>\<open>Add\<close>, \<^verbatim>\<open>Update\<close>, \<^verbatim>\<open>Delete\<close>); section 3 gives
  the operations \<open>Add\<close>, \<open>Update\<close>, \<open>Delete\<close>.
\<close>

datatype RecorderEvent = RecorderAdd | RecorderUpdate | RecorderDelete

text \<open>
  Modelled from the spec: the type \<^verbatim>\<open>recorder.Record\<close>, whose declaration is not in the
  available sources (the tests build it from \<^verbatim>\<open>Event\<close> and \<^verbatim>\<open>Resource\<close>); section 3:
  a Journal Record is \<open>{Operation, Object}\<close>.
\<close>

record Record =
  recordEvent :: RecorderEvent
  recordResource :: json

text \<open>
  Modelled from the spec: the JSON form of a record, written by the recorder and read by
  the replayer, neither of which is in the available sources; section 6: the journal is
  ``a single JSON array of \<open>{event: "Add"|"Update"|"Delete", resource: <Object>}\<close>
  records''.
\<close>

definition eventName :: "RecorderEvent \<Rightarrow> string" where
  "eventName e = (case e of RecorderAdd \<Rightarrow> ''Add'' | RecorderUpdate \<Rightarrow> ''Update'' | RecorderDelete \<Rightarrow> ''Delete'')"

text \<open>
  Modelled from the spec: reading an operation name back (section 6, as above); a name
  other than the three is not a record of the journal.
\<close>

definition eventOfName :: "string \<Rightarrow> RecorderEvent option" where
  "eventOfName n =
     (if n = ''Add'' then Some RecorderAdd
      else if n = ''Update'' then Some RecorderUpdate
      else if n = ''Delete'' then Some RecorderDelete
      else None)"

text \<open>Modelled from the spec: one record of the journal file as JSON (section 6, as above).\<close>

definition marshalRecord :: "Record \<Rightarrow> json" where
  "marshalRecord r =
     JObject [(''event'', JString (eventName (recordEvent r))), (''resource'', recordResource r)]"

text \<open>
  Modelled from the spec: decoding one record of the journal file (section 6, as above):
  an object with an operation name under \<open>event\<close> and the object under \<open>resource\<close>.
\<close>

definition unmarshalRecord :: "json \<Rightarrow> Record option" where
  "unmarshalRecord j =
     (case j of
        JObject members \<Rightarrow>
          (case map_of members ''event'' of
             Some (JString n) \<Rightarrow>
               (case eventOfName n of
                  Some e \<Rightarrow>
                    (case map_of members ''resource'' of
                       Some res \<Rightarrow> Some \<lparr>recordEvent = e, recordResource = res\<rparr>
                     | None \<Rightarrow> None)
                | None \<Rightarrow> None)
           | _ \<Rightarrow> None)
      | _ \<Rightarrow> None)"

text \<open>
  Modelled from the spec: the journal file's content for a list of records, a single JSON
  array in the records' order (sections 3 and 6); the recorder that writes it is not
  in the available sources.
\<close>

definition marshalRecords :: "Record list \<Rightarrow> json" where
  "marshalRecords rs = JArray (map marshalRecord rs)"

text \<open>
  Modelled from the spec: reading the journal file's content back as a list of records
  (``whole-file-read semantics on load'', section 6), as the replayer and the recorder's
  test do; it fails on content that is not an array of records.
\<close>

fun unmarshalAll :: "json list \<Rightarrow> Record list option" where
  "unmarshalAll [] = Some []"
| "unmarshalAll (j # js) =
     (case unmarshalRecord j of
        None \<Rightarrow> None
      | Some r \<Rightarrow> (case unmarshalAll js of None \<Rightarrow> None | Some rs \<Rightarrow> Some (r # rs)))"

text \<open>Modelled from the spec: decoding the whole journal document (section 6, as above).\<close>

definition unmarshalRecords :: "json \<Rightarrow> Record list option" where
  "unmarshalRecords j = (case j of JArray js \<Rightarrow> unmarshalAll js | _ \<Rightarrow> None)"

text \<open>
  Modelled from the spec: the recorder's state; \<^verbatim>\<open>recorder.go\<close> is not in the sources at
  hand. Section 4.4: an in-memory ordered buffer of records, and the journal file at
  the configured path (\<open>None\<close> before the first write).
\<close>

record RecorderService =
  records :: "Record list"
  journalFile :: "json option"

text \<open>
  Modelled from the spec: the recorder as constructed (\<^verbatim>\<open>recorder.New\<close>, not in the
  available sources), with an empty buffer and no file written.
\<close>

definition RecorderNew :: RecorderService where
  "RecorderNew = \<lparr>records = [], journalFile = None\<rparr>"

text \<open>
  Modelled from the spec: the recorder's handler for one observed event (not in the
  available sources). Section 4.4: ``On every Add/Update/Delete it appends a Journal
  Record to an in-memory ordered buffer and flushes the entire buffer to the Journal
  file after each append''; ``No pipeline is applied: the Journal stores the Object
  exactly as observed''; the file is ``replaced wholesale on each Recorder flush''.
\<close>

definition RecorderObserve :: "RecorderEvent \<Rightarrow> json \<Rightarrow> RecorderService \<Rightarrow> RecorderService" where
  "RecorderObserve e obj s =
     (let rs = records s @ [\<lparr>recordEvent = e, recordResource = obj\<rparr>]
      in \<lparr>records = rs, journalFile = Some (marshalRecords rs)\<rparr>)"

text \<open>
  Modelled from the spec: the recorder observing a sequence of events, one handler call
  per event in the order of arrival (section 5: the handler calls of one feed are
  strictly sequential).
\<close>

fun RecorderObserveAll :: "(RecorderEvent \<times> json) list \<Rightarrow> RecorderService \<Rightarrow> RecorderService" where
  "RecorderObserveAll [] s = s"
| "RecorderObserveAll ((e, obj) # evs) s = RecorderObserveAll evs (RecorderObserve e obj s)"

text \<open>
  Modelled from the spec: reading the journal file (section 6); a missing file or
  content that does not decode is a read failure.
\<close>

definition readJournal :: "json option \<Rightarrow> Record list option" where
  "readJournal file = (case file of None \<Rightarrow> None | Some j \<Rightarrow> unmarshalRecords j)"

text \<open>
  Modelled from the spec: the replayer's loop over the records; \<^verbatim>\<open>replayer.go\<close> is not
  in the available sources (its test is). Section 4.5: ``for each Journal Record in file
  order invokes Resource Applier \<open>Create\<close> for \<open>Add\<close> records''; ``a \<open>Create\<close> failing
  with "already exists" is treated as success and replay continues; any other error
  aborts the remaining replay and is surfaced to the caller''. Records of the other
  operations are passed over (the spec leaves their path optional). The applier's
  \<open>Create\<close> is the parameter \<open>create\<close>, acting on the applier's state; the result is the
  error returned (or nil), the applier's state, and the calls of \<open>Create\<close> in order, each
  with what it returned.
\<close>

fun replayRecords ::
  "(json \<Rightarrow> 'a \<Rightarrow> error option \<times> 'a) \<Rightarrow> Record list \<Rightarrow> 'a \<Rightarrow>
   error option \<times> 'a \<times> (json \<times> error option) list" where
  "replayRecords create [] a = (None, a, [])"
| "replayRecords create (r # rs) a =
     (if recordEvent r = RecorderAdd then
        (case create (recordResource r) a of
           (None, a') \<Rightarrow>
             (case replayRecords create rs a' of
                (res, a'', calls) \<Rightarrow> (res, a'', (recordResource r, None) # calls))
         | (Some err, a') \<Rightarrow>
             if IsAlreadyExists err
             then (case replayRecords create rs a' of
                     (res, a'', calls) \<Rightarrow> (res, a'', (recordResource r, Some err) # calls))
             else (Some err, a', [(recordResource r, Some err)]))
      else replayRecords create rs a)"

text \<open>
  Modelled from the spec: \<^verbatim>\<open>Replayer.Replay\<close> (not in the available sources). Section 4.5:
  it ``reads the whole Journal'' and then replays the records; section 7: a journal
  read failure is fatal to the whole replay.
\<close>

definition Replay ::
  "(json \<Rightarrow> 'a \<Rightarrow> error option \<times> 'a) \<Rightarrow> json option \<Rightarrow> 'a \<Rightarrow>
   error option \<times> 'a \<times> (json \<times> error option) list" where
  "Replay create file a =
     (case readJournal file of
        None \<Rightarrow> (Some (OtherError ''failed to load the records''), a, [])
      | Some rs \<Rightarrow> replayRecords create rs a)"

section \<open>Properties and concrete inputs\<close>

text \<open>An object without server-assigned identity, generation and version stamp.\<close>

definition stripped :: "unstructured \<Rightarrow> bool" where
  "stripped resource \<longleftrightarrow>
     GetUID resource = '''' \<and> GetGeneration resource = 0 \<and> GetResourceVersion resource = ''''"

text \<open>The effects that are requests to the destination, and those that are calls of
  registered filtering or mutating functions.\<close>

fun isRequest :: "effect \<Rightarrow> bool" where
  "isRequest (CreateRequest r ns obj) = True"
| "isRequest (UpdateRequest r ns obj) = True"
| "isRequest (DeleteRequest r ns n) = True"
| "isRequest (FilterCall r e obj) = False"
| "isRequest (MutateCall r e obj) = False"
| "isRequest (LogError msg) = False"
| "isRequest (LogErrorS err msg) = False"
| "isRequest (LogInfo msg err) = False"
| "isRequest Crash = False"

fun isPipelineCall :: "effect \<Rightarrow> bool" where
  "isPipelineCall (FilterCall r e obj) = True"
| "isPipelineCall (MutateCall r e obj) = True"
| "isPipelineCall (CreateRequest r ns obj) = False"
| "isPipelineCall (UpdateRequest r ns obj) = False"
| "isPipelineCall (DeleteRequest r ns n) = False"
| "isPipelineCall (LogError msg) = False"
| "isPipelineCall (LogErrorS err msg) = False"
| "isPipelineCall (LogInfo msg err) = False"
| "isPipelineCall Crash = False"

text \<open>
  A destination for the concrete inputs: an object store keyed by resource, namespace
  and name, which answers as the API does (a create of an existing object is
  ``already exists'', an update or delete of a missing one is ``not found'').
\<close>

type_synonym store = "((GroupVersionResource \<times> string \<times> string) \<times> unstructured) list"

definition storeClient :: "store DestClient" where
  "storeClient =
     \<lparr>DestCreate = (\<lambda>r ns obj st.
        case map_of st (r, ns, GetName obj) of
          Some old \<Rightarrow> (Some (StatusError StatusReasonAlreadyExists), st)
        | None \<Rightarrow> (None, st @ [((r, ns, GetName obj), obj)])),
      DestUpdate = (\<lambda>r ns obj st.
        case map_of st (r, ns, GetName obj) of
          None \<Rightarrow> (Some (StatusError StatusReasonNotFound), st)
        | Some old \<Rightarrow>
            (None, map (\<lambda>(k, v). if k = (r, ns, GetName obj) then (k, obj) else (k, v)) st)),
      DestDelete = (\<lambda>r ns n st.
        case map_of st (r, ns, n) of
          None \<Rightarrow> (Some (StatusError StatusReasonNotFound), st)
        | Some old \<Rightarrow> (None, filter (\<lambda>(k, v). k \<noteq> (r, ns, n)) st)),
      DestGet = (\<lambda>r ns n st.
        case map_of st (r, ns, n) of
          None \<Rightarrow> Inl (StatusError StatusReasonNotFound)
        | Some obj \<Rightarrow> Inr obj)\<rparr>"

text \<open>A REST mapper that knows the core kinds the syncer's mandatory resources use.\<close>

definition coreMapper :: "GroupVersionKind \<Rightarrow> error + GroupVersionResource" where
  "coreMapper k =
     (if gvkGroup k = '''' \<and> gvkVersion k = ''v1'' then
        (if gvkKind k = ''Pod'' then Inr (gvr '''' ''v1'' ''pods'')
         else if gvkKind k = ''Node'' then Inr (gvr '''' ''v1'' ''nodes'')
         else if gvkKind k = ''Namespace'' then Inr (gvr '''' ''v1'' ''namespaces'')
         else if gvkKind k = ''PersistentVolume'' then Inr (gvr '''' ''v1'' ''persistentvolumes'')
         else if gvkKind k = ''PersistentVolumeClaim'' then Inr (gvr '''' ''v1'' ''persistentvolumeclaims'')
         else Inl NoKindMatchError)
      else Inl NoKindMatchError)"

definition coreObject :: "string \<Rightarrow> string \<Rightarrow> string \<Rightarrow> unstructured" where
  "coreObject k ns n =
     \<lparr>gvk = \<lparr>gvkGroup = '''', gvkVersion = ''v1'', gvkKind = k\<rparr>,
      Namespace = ns, Name = n, UID = '''', Generation = 0, ResourceVersion = '''',
      decodable = True, NodeName = '''', ServiceAccountName = '''', Phase = '''',
      ClaimRef = None\<rparr>"

text \<open>A pod as the source cluster holds it, not yet scheduled; and the same pod once
  the source's scheduler has placed it.\<close>

definition pod1 :: unstructured where
  "pod1 = (coreObject ''Pod'' ''default'' ''pod-1'')
            \<lparr>UID := ''6f1a'', Generation := 1, ResourceVersion := ''812'',
             ServiceAccountName := ''builder''\<rparr>"

definition pod1Scheduled :: unstructured where
  "pod1Scheduled = pod1\<lparr>ResourceVersion := ''845'', NodeName := ''node-1''\<rparr>"

text \<open>A namespace (no mandatory function is registered for namespaces).\<close>

definition namespace1 :: unstructured where
  "namespace1 = (coreObject ''Namespace'' '''' ''default'')
                  \<lparr>UID := ''0c3e'', Generation := 2, ResourceVersion := ''17''\<rparr>"

text \<open>
  A claim and the volume bound to it. The source holds the claim with UID \<open>a1-src\<close>;
  the destination assigned the claim the UID \<open>b2-dest\<close> when the syncer created it.
\<close>

definition pvc1Source :: unstructured where
  "pvc1Source = (coreObject ''PersistentVolumeClaim'' ''default'' ''pvc-1'')\<lparr>UID := ''a1-src''\<rparr>"

definition pvc1Destination :: unstructured where
  "pvc1Destination = (coreObject ''PersistentVolumeClaim'' ''default'' ''pvc-1'')\<lparr>UID := ''b2-dest''\<rparr>"

definition claimRef1 :: ObjectReference where
  "claimRef1 =
     \<lparr>refKind = ''PersistentVolumeClaim'', refNamespace = ''default'', refName = ''pvc-1'',
      refUID = ''a1-src'', refAPIVersion = ''v1'', refResourceVersion = '''',
      refFieldPath = ''''\<rparr>"

definition pv1 :: unstructured where
  "pv1 = (coreObject ''PersistentVolume'' '''' ''pv-1'')
           \<lparr>UID := ''77d0'', ResourceVersion := ''31'', Phase := ''Bound'',
            ClaimRef := Some claimRef1\<rparr>"

definition pv1NoClaimRef :: unstructured where
  "pv1NoClaimRef = pv1\<lparr>ClaimRef := None\<rparr>"

definition sourceCluster :: SrcClient where
  "sourceCluster r ns n =
     (if r = gvr '''' ''v1'' ''persistentvolumeclaims'' \<and> ns = ''default'' \<and> n = ''pvc-1''
      then Inr pvc1Source
      else Inl (StatusError StatusReasonNotFound))"

definition destinationWithClaim :: store where
  "destinationWithClaim =
     [((gvr '''' ''v1'' ''persistentvolumeclaims'', ''default'', ''pvc-1''), pvc1Destination)]"

definition noOptions :: "store Options" where
  "noOptions =
     \<lparr>GVRsToSync = None, AdditionalMutatingFunctions = Map.empty,
      AdditionalFilteringFunctions = Map.empty\<rparr>"

definition defaultService :: "store Service" where
  "defaultService = fst (New sourceCluster storeClient coreMapper noOptions initialGlobals)"

text \<open>
  A caller of \<^verbatim>\<open>New\<close> who registers functions of their own for pods that do not call
  the mandatory ones.
\<close>

definition keepPods :: "store MutatingFunction" where
  "keepPods resource cl event = Ok resource"

definition allowPods :: "store FilteringFunction" where
  "allowPods resource cl event = (True, None)"

definition overridingOptions :: "store Options" where
  "overridingOptions =
     \<lparr>GVRsToSync = None,
      AdditionalMutatingFunctions = [gvr '''' ''v1'' ''pods'' \<mapsto> keepPods],
      AdditionalFilteringFunctions = [gvr '''' ''v1'' ''pods'' \<mapsto> allowPods]\<rparr>"

definition overridingService :: "store Service" where
  "overridingService = fst (New sourceCluster storeClient coreMapper overridingOptions initialGlobals)"

text \<open>The journal objects of the recorder's and the replayer's tests.\<close>

definition jsonPod :: "string \<Rightarrow> json" where
  "jsonPod n =
     JObject [(''apiVersion'', JString ''v1''), (''kind'', JString ''Pod''),
              (''metadata'', JObject [(''name'', JString n), (''namespace'', JString ''default'')])]"

definition jsonPodOnNode :: "string \<Rightarrow> string \<Rightarrow> json" where
  "jsonPodOnNode n node =
     JObject [(''apiVersion'', JString ''v1''), (''kind'', JString ''Pod''),
              (''metadata'', JObject [(''name'', JString n), (''namespace'', JString ''default'')]),
              (''spec'', JObject [(''nodeName'', JString node)])]"

text \<open>An applier for the concrete inputs that keeps the created objects and answers
  ``already exists'' to the second create of the same object.\<close>

definition keepingApplier :: "json \<Rightarrow> json list \<Rightarrow> error option \<times> json list" where
  "keepingApplier obj st =
     (if obj \<in> set st then (Some (StatusError StatusReasonAlreadyExists), st)
      else (None, st @ [obj]))"

text \<open>The appliers of the replayer's test: \<^verbatim>\<open>Create\<close> returns what the mock was told to.\<close>

definition mockApplier :: "error option \<Rightarrow> json \<Rightarrow> unit \<Rightarrow> error option \<times> unit" where
  "mockApplier answer obj u = (answer, u)"

text \<open>The destination after the syncer has created \<open>pod1\<close> there, and \<open>pod1\<close> as the
  source holds it after a later change that leaves it unscheduled.\<close>

definition destinationWithPod1 :: store where
  "destinationWithPod1 =
     [((gvr '''' ''v1'' ''pods'', ''default'', ''pod-1''),
       pod1\<lparr>UID := '''', Generation := 0, ResourceVersion := '''', ServiceAccountName := ''default''\<rparr>)]"

definition pod1Updated :: unstructured where
  "pod1Updated = pod1\<lparr>ResourceVersion := ''830''\<rparr>"

text \<open>The record that the journal holds for an observed event.\<close>

definition recordOf :: "RecorderEvent \<times> json \<Rightarrow> Record" where
  "recordOf ev = \<lparr>recordEvent = fst ev, recordResource = snd ev\<rparr>"

text \<open>The records that the replayer creates, and the answers of \<open>Create\<close> that let the
  replay go on: nil and ``already exists''.\<close>

definition isAddRecord :: "Record \<Rightarrow> bool" where
  "isAddRecord r \<longleftrightarrow> recordEvent r = RecorderAdd"

definition benign :: "error option \<Rightarrow> bool" where
  "benign answer = (case answer of None \<Rightarrow> True | Some err \<Rightarrow> IsAlreadyExists err)"

text \<open>The calls of \<open>Create\<close> on a list of objects, one after the other from a state of
  the applier, each with what it returned.\<close>

fun answers :: "(json \<Rightarrow> 'a \<Rightarrow> error option \<times> 'a) \<Rightarrow> json list \<Rightarrow> 'a \<Rightarrow> (json \<times> error option) list" where
  "answers create [] a = []"
| "answers create (obj # objs) a =
     (case create obj a of (answer, a') \<Rightarrow> (obj, answer) # answers create objs a')"

text \<open>A journal file as the recorder leaves it, and the records it holds: a pod is
  created, scheduled by the source, and the journal holds its creation a second time
  before that of a second pod.\<close>

definition exampleJournal :: "json option" where
  "exampleJournal =
     Some (JArray
       [JObject [(''event'', JString ''Add''), (''resource'', jsonPod ''pod-1'')],
        JObject [(''event'', JString ''Update''), (''resource'', jsonPodOnNode ''pod-1'' ''node-1'')],
        JObject [(''event'', JString ''Add''), (''resource'', jsonPod ''pod-1'')],
        JObject [(''event'', JString ''Add''), (''resource'', jsonPod ''pod-2'')]])"

definition exampleRecords :: "Record list" where
  "exampleRecords =
     [\<lparr>recordEvent = RecorderAdd, recordResource = jsonPod ''pod-1''\<rparr>,
      \<lparr>recordEvent = RecorderUpdate, recordResource = jsonPodOnNode ''pod-1'' ''node-1''\<rparr>,
      \<lparr>recordEvent = RecorderAdd, recordResource = jsonPod ''pod-1''\<rparr>,
      \<lparr>recordEvent = RecorderAdd, recordResource = jsonPod ''pod-2''\<rparr>]"

text \<open>
  Further concrete inputs: an object of a kind the REST mapper does not know; a caller
  of \<^verbatim>\<open>New\<close> whose filtering function for namespaces returns an error; a pod whose
  content does not convert to \<^verbatim>\<open>v1.Pod\<close>; a bound volume whose claim the source does
  not hold.
\<close>

definition widget1 :: unstructured where
  "widget1 = coreObject ''Widget'' ''default'' ''w-1''"

definition refusingFilter :: "store FilteringFunction" where
  "refusingFilter resource cl event = (False, Some (OtherError ''refused''))"

definition refusingOptions :: "store Options" where
  "refusingOptions =
     \<lparr>GVRsToSync = None, AdditionalMutatingFunctions = Map.empty,
      AdditionalFilteringFunctions = [gvr '''' ''v1'' ''namespaces'' \<mapsto> refusingFilter]\<rparr>"

definition refusingService :: "store Service" where
  "refusingService = fst (New sourceCluster storeClient coreMapper refusingOptions initialGlobals)"

definition pod1Undecodable :: unstructured where
  "pod1Undecodable = pod1Updated\<lparr>decodable := False\<rparr>"

definition pv1Orphan :: unstructured where
  "pv1Orphan = pv1\<lparr>ClaimRef := Some (claimRef1\<lparr>refName := ''pvc-9''\<rparr>)\<rparr>"

section \<open>Lemmas on the syncer's paths\<close>

lemmas accessor_defs = GetUID_def GetGeneration_def GetResourceVersion_def GetNamespace_def GetName_def
  SetUID_def SetGeneration_def SetResourceVersion_def

lemma stripped_removeUnnecessaryMetadata: "stripped (removeUnnecessaryMetadata resource)"
  by (simp add: stripped_def removeUnnecessaryMetadata_def accessor_defs)

lemma mutatePV_keeps_metadata:
  "mutatePV resource cl event = Ok obj \<Longrightarrow>
   GetUID obj = GetUID resource \<and> GetGeneration obj = GetGeneration resource \<and>
   GetResourceVersion obj = GetResourceVersion resource"
  by (auto simp: mutatePV_def FromUnstructured_def ToUnstructured_def accessor_defs
           split: if_splits option.splits sum.splits)

lemma mutatePods_keeps_metadata:
  "mutatePods resource cl event = Ok obj \<Longrightarrow>
   GetUID obj = GetUID resource \<and> GetGeneration obj = GetGeneration resource \<and>
   GetResourceVersion obj = GetResourceVersion resource"
  by (auto simp: mutatePods_def FromUnstructured_def ToUnstructured_def accessor_defs
           split: if_splits option.splits sum.splits)

lemma runFilteringFunction_effects:
  "runFilteringFunction s r resource event = (ret, fe) \<Longrightarrow>
   fe = [] \<or> fe = [FilterCall r event resource]"
  by (auto simp: runFilteringFunction_def split: option.splits prod.splits if_splits)

lemma runMutatingFunction_effects:
  "runMutatingFunction s r resource event = (ret, me) \<Longrightarrow>
   me = [] \<or> me = [MutateCall r event resource]"
  by (auto simp: runMutatingFunction_def split: option.splits result.splits)

lemma runMutatingFunction_Ok:
  "runMutatingFunction s r resource event = (Ok obj, me) \<Longrightarrow>
   (case mutatingFunctions s r of
      None \<Rightarrow> obj = resource
    | Some f \<Rightarrow> f resource (clients s) event = Ok obj)"
  by (auto simp: runMutatingFunction_def split: option.splits result.splits)

lemma create_request_shape:
  assumes run: "createResourceOnDestinationCluster s resource d = (ret, d', effs)"
    and req: "CreateRequest r ns obj \<in> set effs"
  shows "\<exists>fe me. findGVRForGVK s (gvk resource) = Inr r \<and> ns = GetNamespace resource \<and>
      runFilteringFunction s r resource Add = (None, fe) \<and>
      runMutatingFunction s r (removeUnnecessaryMetadata resource) Add = (Ok obj, me) \<and>
      effs = fe @ me @ [CreateRequest r ns obj]"
proof (cases "findGVRForGVK s (gvk resource)")
  case (Inl err)
  with run req show ?thesis
    by (simp add: createResourceOnDestinationCluster_def)
next
  case (Inr r0)
  obtain fr fe where f: "runFilteringFunction s r0 resource Add = (fr, fe)"
    by (cases "runFilteringFunction s r0 resource Add")
  have fe: "\<not> isRequest x" if "x \<in> set fe" for x
    using runFilteringFunction_effects [OF f] that by auto
  show ?thesis
  proof (cases fr)
    case (Some early)
    with run Inr f have "effs = fe"
      by (simp add: createResourceOnDestinationCluster_def)
    with req fe show ?thesis by fastforce
  next
    case None
    obtain mr me where m:
      "runMutatingFunction s r0 (removeUnnecessaryMetadata resource) Add = (mr, me)"
      by (cases "runMutatingFunction s r0 (removeUnnecessaryMetadata resource) Add")
    have me: "\<not> isRequest x" if "x \<in> set me" for x
      using runMutatingFunction_effects [OF m] that by auto
    show ?thesis
    proof (cases mr)
      case (Ok obj0)
      with run Inr f None m
      have effs: "effs = fe @ me @ [CreateRequest r0 (GetNamespace resource) obj0]"
        by (auto simp: createResourceOnDestinationCluster_def Let_def split: prod.splits)
      with req fe me have "CreateRequest r ns obj = CreateRequest r0 (GetNamespace resource) obj0"
        by fastforce
      with Inr f None m Ok effs show ?thesis by simp
    next
      case (Err err)
      with run Inr f None m have "effs = fe @ me"
        by (simp add: createResourceOnDestinationCluster_def)
      with req fe me show ?thesis by fastforce
    next
      case Panic
      with run Inr f None m have "effs = fe @ me"
        by (simp add: createResourceOnDestinationCluster_def)
      with req fe me show ?thesis by fastforce
    qed
  qed
qed

lemma update_request_shape:
  assumes run: "updateResourceOnDestinationCluster s resource d = (ret, d', effs)"
    and req: "UpdateRequest r ns obj \<in> set effs"
  shows "\<exists>fe me. findGVRForGVK s (gvk resource) = Inr r \<and> ns = GetNamespace resource \<and>
      runFilteringFunction s r resource Update = (None, fe) \<and>
      runMutatingFunction s r resource Update = (Ok obj, me) \<and>
      effs = fe @ me @ [UpdateRequest r ns obj]"
proof (cases "findGVRForGVK s (gvk resource)")
  case (Inl err)
  with run req show ?thesis
    by (simp add: updateResourceOnDestinationCluster_def)
next
  case (Inr r0)
  obtain fr fe where f: "runFilteringFunction s r0 resource Update = (fr, fe)"
    by (cases "runFilteringFunction s r0 resource Update")
  have fe: "\<not> isRequest x" if "x \<in> set fe" for x
    using runFilteringFunction_effects [OF f] that by auto
  show ?thesis
  proof (cases fr)
    case (Some early)
    with run Inr f have "effs = fe"
      by (simp add: updateResourceOnDestinationCluster_def)
    with req fe show ?thesis by fastforce
  next
    case None
    obtain mr me where m: "runMutatingFunction s r0 resource Update = (mr, me)"
      by (cases "runMutatingFunction s r0 resource Update")
    have me: "\<not> isRequest x" if "x \<in> set me" for x
      using runMutatingFunction_effects [OF m] that by auto
    show ?thesis
    proof (cases mr)
      case (Ok obj0)
      with run Inr f None m
      have effs: "effs = fe @ me @ [UpdateRequest r0 (GetNamespace resource) obj0]"
        by (auto simp: updateResourceOnDestinationCluster_def Let_def split: prod.splits)
      with req fe me have "UpdateRequest r ns obj = UpdateRequest r0 (GetNamespace resource) obj0"
        by fastforce
      with Inr f None m Ok effs show ?thesis by simp
    next
      case (Err err)
      with run Inr f None m have "effs = fe @ me"
        by (simp add: updateResourceOnDestinationCluster_def)
      with req fe me show ?thesis by fastforce
    next
      case Panic
      with run Inr f None m have "effs = fe @ me"
        by (simp add: updateResourceOnDestinationCluster_def)
      with req fe me show ?thesis by fastforce
    qed
  qed
qed

lemma create_one_request:
  "createResourceOnDestinationCluster s u d = (ret, d', effs) \<Longrightarrow>
   length (filter isRequest effs) \<le> 1"
  by (auto simp: createResourceOnDestinationCluster_def runFilteringFunction_def
        runMutatingFunction_def Let_def
        split: sum.splits prod.splits option.splits result.splits if_splits)

lemma update_one_request:
  "updateResourceOnDestinationCluster s u d = (ret, d', effs) \<Longrightarrow>
   length (filter isRequest effs) \<le> 1"
  by (auto simp: updateResourceOnDestinationCluster_def runFilteringFunction_def
        runMutatingFunction_def Let_def
        split: sum.splits prod.splits option.splits result.splits if_splits)

lemma delete_one_request:
  "deleteResourceOnDestinationCluster s u d = (ret, d', effs) \<Longrightarrow>
   length (filter isRequest effs) \<le> 1"
  by (auto simp: deleteResourceOnDestinationCluster_def Let_def
        split: sum.splits prod.splits option.splits)

lemma handle_one_request:
  "length (filter isRequest (snd (handle s n d))) \<le> 1"
proof (cases n)
  case (OnAdd obj)
  then show ?thesis
    by (cases obj)
       (auto simp: addFunc_def split: prod.splits result.splits dest: create_one_request)
next
  case (OnUpdate old new)
  then show ?thesis
    by (cases new)
       (auto simp: updateFunc_def split: prod.splits result.splits dest: update_one_request)
next
  case (OnDelete obj)
  then show ?thesis
    by (cases obj)
       (auto simp: deleteFunc_def split: prod.splits result.splits dest: delete_one_request)
qed

lemma create_error_sources:
  "createResourceOnDestinationCluster s u d = (Err err, d', effs) \<Longrightarrow>
     (findGVRForGVK s (gvk u) = Inl err \<and> effs = [] \<and> d' = d) \<or>
     (\<exists>r ok. findGVRForGVK s (gvk u) = Inr r \<and>
        (\<exists>f. filteringFunctions s r = Some f \<and> f u (clients s) Add = (ok, Some err)) \<and>
        effs = [FilterCall r Add u] \<and> d' = d) \<or>
     (\<exists>r f e. findGVRForGVK s (gvk u) = Inr r \<and> mutatingFunctions s r = Some f \<and>
        f (removeUnnecessaryMetadata u) (clients s) Add = Err e \<and>
        err = Errorf ''failed to mutate resource'' e \<and> \<not> list_ex isRequest effs \<and> d' = d) \<or>
     (\<exists>r obj e. findGVRForGVK s (gvk u) = Inr r \<and>
        DestCreate (DestDynamicClient (clients s)) r (GetNamespace u) obj d = (Some e, d') \<and>
        err = Errorf ''failed to create resource'' e \<and>
        filter isRequest effs = [CreateRequest r (GetNamespace u) obj])"
  by (auto simp: createResourceOnDestinationCluster_def runFilteringFunction_def
        runMutatingFunction_def Let_def
        split: sum.splits prod.splits option.splits result.splits if_splits)

lemma New_writes_package_maps:
  "MandatoryMutatingFunctions (snd (New src dc rm opts g)) =
     mutatingFunctions (fst (New src dc rm opts g)) \<and>
   MandatoryFilteringFunctions (snd (New src dc rm opts g)) =
     filteringFunctions (fst (New src dc rm opts g))"
  by (simp add: New_def Let_def)

lemma mutatePV_bound:
  "decodable pv \<Longrightarrow> Phase pv = VolumeBound \<Longrightarrow> ClaimRef pv = Some claimRef \<Longrightarrow>
   SrcDynamicClient cl (gvr '''' ''v1'' ''persistentvolumeclaims'')
     (refNamespace claimRef) (refName claimRef) = Inr pvc \<Longrightarrow>
   mutatePV pv cl event = Ok (pv\<lparr>ClaimRef := Some (claimRef\<lparr>refUID := GetUID pvc\<rparr>)\<rparr>)"
  by (simp add: mutatePV_def FromUnstructured_def ToUnstructured_def GetUID_def)

lemma mutatePV_not_bound:
  "decodable pv \<Longrightarrow> Phase pv \<noteq> VolumeBound \<Longrightarrow> mutatePV pv cl event = Ok pv"
  by (simp add: mutatePV_def FromUnstructured_def ToUnstructured_def)

lemma mutatePV_ignores_destination:
  "mutatePV pv (cl\<lparr>DestDynamicClient := dc\<rparr>) event = mutatePV pv cl event"
  by (simp add: mutatePV_def split: sum.splits option.splits)

lemma create_sends_what_the_pipeline_returns:
  "findGVRForGVK s (gvk resource) = Inr r \<Longrightarrow>
   runFilteringFunction s r resource Add = (None, fe) \<Longrightarrow>
   runMutatingFunction s r (removeUnnecessaryMetadata resource) Add = (Ok obj, me) \<Longrightarrow>
   snd (snd (createResourceOnDestinationCluster s resource d)) =
     fe @ me @ [CreateRequest r (GetNamespace resource) obj]"
  by (simp add: createResourceOnDestinationCluster_def Let_def split: prod.splits)

lemma update_sends_what_the_pipeline_returns:
  "findGVRForGVK s (gvk resource) = Inr r \<Longrightarrow>
   runFilteringFunction s r resource Update = (None, fe) \<Longrightarrow>
   runMutatingFunction s r resource Update = (Ok obj, me) \<Longrightarrow>
   snd (snd (updateResourceOnDestinationCluster s resource d)) =
     fe @ me @ [UpdateRequest r (GetNamespace resource) obj]"
  by (simp add: updateResourceOnDestinationCluster_def Let_def split: prod.splits)

text \<open>
  What a handler does when the kind does not resolve, when the filtering or the
  mutating function returns an error, and when the destination refuses the request.
\<close>

lemma add_resolution_error:
  "findGVRForGVK s (gvk u) = Inl err \<Longrightarrow>
   handle s (OnAdd (Unstructured u)) d =
     (d, [LogErrorS err ''Failed to create resource on destination cluster''])"
  by (simp add: addFunc_def createResourceOnDestinationCluster_def)

lemma update_resolution_error:
  "findGVRForGVK s (gvk u) = Inl err \<Longrightarrow>
   handle s (OnUpdate old (Unstructured u)) d =
     (d, [if IsNotFound err
          then LogInfo ''Skipped to update resource on destination: '' err
          else LogErrorS err ''Failed to update resource on destination cluster''])"
  by (simp add: updateFunc_def updateResourceOnDestinationCluster_def)

lemma delete_resolution_error:
  "findGVRForGVK s (gvk u) = Inl err \<Longrightarrow>
   handle s (OnDelete (Unstructured u)) d =
     (d, [if IsNotFound err
          then LogInfo ''Skipped to delete resource on destination: '' err
          else LogErrorS err ''Failed to delete resource on destination cluster''])"
  by (simp add: deleteFunc_def deleteResourceOnDestinationCluster_def)

lemma add_filter_error:
  "findGVRForGVK s (gvk u) = Inr r \<Longrightarrow> filteringFunctions s r = Some f \<Longrightarrow>
   f u (clients s) Add = (ok, Some err) \<Longrightarrow>
   handle s (OnAdd (Unstructured u)) d =
     (d, [FilterCall r Add u, LogErrorS err ''Failed to create resource on destination cluster''])"
  by (simp add: addFunc_def createResourceOnDestinationCluster_def runFilteringFunction_def Let_def)

lemma update_filter_error:
  "findGVRForGVK s (gvk u) = Inr r \<Longrightarrow> filteringFunctions s r = Some f \<Longrightarrow>
   f u (clients s) Update = (ok, Some err) \<Longrightarrow>
   handle s (OnUpdate old (Unstructured u)) d =
     (d, [FilterCall r Update u,
          if IsNotFound err
          then LogInfo ''Skipped to update resource on destination: '' err
          else LogErrorS err ''Failed to update resource on destination cluster''])"
  by (simp add: updateFunc_def updateResourceOnDestinationCluster_def runFilteringFunction_def Let_def)

lemma add_mutator_error:
  "findGVRForGVK s (gvk u) = Inr r \<Longrightarrow> mutatingFunctions s r = Some m \<Longrightarrow>
   runFilteringFunction s r u Add = (None, fe) \<Longrightarrow>
   m (removeUnnecessaryMetadata u) (clients s) Add = Err err \<Longrightarrow>
   handle s (OnAdd (Unstructured u)) d =
     (d, fe @ [MutateCall r Add (removeUnnecessaryMetadata u),
               LogErrorS (Errorf ''failed to mutate resource'' err)
                 ''Failed to create resource on destination cluster''])"
  by (simp add: addFunc_def createResourceOnDestinationCluster_def runMutatingFunction_def Let_def)

lemma update_mutator_error:
  "findGVRForGVK s (gvk u) = Inr r \<Longrightarrow> mutatingFunctions s r = Some m \<Longrightarrow>
   runFilteringFunction s r u Update = (None, fe) \<Longrightarrow>
   m u (clients s) Update = Err err \<Longrightarrow>
   handle s (OnUpdate old (Unstructured u)) d =
     (d, fe @ [MutateCall r Update u,
               if IsNotFound err
               then LogInfo ''Skipped to update resource on destination: ''
                      (Errorf ''failed to mutate resource'' err)
               else LogErrorS (Errorf ''failed to mutate resource'' err)
                      ''Failed to update resource on destination cluster''])"
  by (simp add: updateFunc_def updateResourceOnDestinationCluster_def runMutatingFunction_def Let_def)

lemma add_write_error:
  "findGVRForGVK s (gvk u) = Inr r \<Longrightarrow>
   runFilteringFunction s r u Add = (None, fe) \<Longrightarrow>
   runMutatingFunction s r (removeUnnecessaryMetadata u) Add = (Ok obj, me) \<Longrightarrow>
   DestCreate (DestDynamicClient (clients s)) r (GetNamespace u) obj d = (Some err, d') \<Longrightarrow>
   handle s (OnAdd (Unstructured u)) d =
     (d', fe @ me @ [CreateRequest r (GetNamespace u) obj,
                     LogErrorS (Errorf ''failed to create resource'' err)
                       ''Failed to create resource on destination cluster''])"
  by (simp add: addFunc_def createResourceOnDestinationCluster_def Let_def)

lemma update_write_error:
  "findGVRForGVK s (gvk u) = Inr r \<Longrightarrow>
   runFilteringFunction s r u Update = (None, fe) \<Longrightarrow>
   runMutatingFunction s r u Update = (Ok obj, me) \<Longrightarrow>
   DestUpdate (DestDynamicClient (clients s)) r (GetNamespace u) obj d = (Some err, d') \<Longrightarrow>
   handle s (OnUpdate old (Unstructured u)) d =
     (d', fe @ me @ [UpdateRequest r (GetNamespace u) obj,
                     if IsNotFound err
                     then LogInfo ''Skipped to update resource on destination: ''
                            (Errorf ''failed to create resource'' err)
                     else LogErrorS (Errorf ''failed to create resource'' err)
                            ''Failed to update resource on destination cluster''])"
  by (simp add: updateFunc_def updateResourceOnDestinationCluster_def Let_def)

lemma delete_write_error:
  "findGVRForGVK s (gvk u) = Inr r \<Longrightarrow>
   DestDelete (DestDynamicClient (clients s)) r (GetNamespace u) (GetName u) d = (Some err, d') \<Longrightarrow>
   handle s (OnDelete (Unstructured u)) d =
     (d', [DeleteRequest r (GetNamespace u) (GetName u),
           if IsNotFound err
           then LogInfo ''Skipped to delete resource on destination: ''
                  (Errorf ''failed to delete resource'' err)
           else LogErrorS (Errorf ''failed to delete resource'' err)
                  ''Failed to delete resource on destination cluster''])"
  by (simp add: deleteFunc_def deleteResourceOnDestinationCluster_def Let_def)

lemma delete_write_ok:
  "findGVRForGVK s (gvk u) = Inr r \<Longrightarrow>
   DestDelete (DestDynamicClient (clients s)) r (GetNamespace u) (GetName u) d = (None, d') \<Longrightarrow>
   handle s (OnDelete (Unstructured u)) d =
     (d', [DeleteRequest r (GetNamespace u) (GetName u)])"
  by (simp add: deleteFunc_def deleteResourceOnDestinationCluster_def Let_def)

lemma delete_not_unstructured:
  "handle s (OnDelete NotUnstructured) d =
     (d, [LogError ''Failed to convert runtime.Object to *unstructured.Unstructured''])"
  by (simp add: deleteFunc_def)

lemma delete_no_pipeline_call:
  "\<forall>x \<in> set (snd (handle s (OnDelete obj) d)). \<not> isPipelineCall x"
  by (auto simp: deleteResourceOnDestinationCluster_def deleteFunc_def Let_def
        split: sum.splits prod.splits option.splits informerObject.splits result.splits if_splits)

lemma delete_ignores_registry:
  "handle (s\<lparr>mutatingFunctions := m, filteringFunctions := f\<rparr>) (OnDelete obj) d =
   handle s (OnDelete obj) d"
  by (auto simp: deleteResourceOnDestinationCluster_def deleteFunc_def findGVRForGVK_def Let_def
        split: sum.splits prod.splits option.splits informerObject.splits result.splits if_splits)

section \<open>Lemmas on the journal\<close>

lemma eventOfName_eventName: "eventOfName (eventName e) = Some e"
  by (cases e) (simp_all add: eventName_def eventOfName_def)

lemma unmarshalRecord_marshalRecord: "unmarshalRecord (marshalRecord r) = Some r"
  by (simp add: unmarshalRecord_def marshalRecord_def eventOfName_eventName)

lemma unmarshalAll_marshalRecord: "unmarshalAll (map marshalRecord rs) = Some rs"
  by (induction rs) (simp_all add: unmarshalRecord_marshalRecord)

lemma unmarshalRecords_marshalRecords: "unmarshalRecords (marshalRecords rs) = Some rs"
  by (simp add: unmarshalRecords_def marshalRecords_def unmarshalAll_marshalRecord)

lemma RecorderObserveAll_state:
  "evs \<noteq> [] \<Longrightarrow>
   RecorderObserveAll evs s =
     \<lparr>records = records s @ map recordOf evs,
      journalFile = Some (marshalRecords (records s @ map recordOf evs))\<rparr>"
proof (induction evs arbitrary: s)
  case Nil
  then show ?case by simp
next
  case (Cons ev evs)
  obtain e obj where ev: "ev = (e, obj)" by (cases ev)
  show ?case
  proof (cases "evs = []")
    case True
    with ev show ?thesis by (simp add: RecorderObserve_def recordOf_def Let_def)
  next
    case False
    from Cons.IH [OF False, of "RecorderObserve e obj s"] ev show ?thesis
      by (simp add: RecorderObserve_def recordOf_def Let_def)
  qed
qed

lemma replayRecords_faithful:
  "replayRecords create rs a = (res, a', calls) \<Longrightarrow> calls = answers create (map fst calls) a"
proof (induction rs arbitrary: a res a' calls)
  case Nil
  then show ?case by simp
next
  case (Cons r rs)
  show ?case
  proof (cases "recordEvent r = RecorderAdd")
    case False
    with Cons.prems have "replayRecords create rs a = (res, a', calls)" by simp
    from Cons.IH [OF this] show ?thesis .
  next
    case True
    obtain answer a1 where cr: "create (recordResource r) a = (answer, a1)"
      by (cases "create (recordResource r) a")
    obtain res0 a0 calls0 where run: "replayRecords create rs a1 = (res0, a0, calls0)"
      by (cases "replayRecords create rs a1")
    from Cons.IH [OF run] have ih: "calls0 = answers create (map fst calls0) a1" .
    from Cons.prems True cr run
    consider "calls = [(recordResource r, answer)]" | "calls = (recordResource r, answer) # calls0"
      by (auto split: option.splits if_splits)
    then show ?thesis
    proof cases
      case 1
      with cr show ?thesis by simp
    next
      case 2
      with cr ih show ?thesis by simp
    qed
  qed
qed

lemma replayRecords_success:
  "replayRecords create rs a = (None, a', calls) \<Longrightarrow>
   map fst calls = map recordResource (filter isAddRecord rs) \<and>
   (\<forall>c \<in> set calls. benign (snd c))"
proof (induction rs arbitrary: a calls)
  case Nil
  then show ?case by simp
next
  case (Cons r rs)
  show ?case
  proof (cases "recordEvent r = RecorderAdd")
    case False
    with Cons.prems have "replayRecords create rs a = (None, a', calls)" by simp
    from Cons.IH [OF this] False show ?thesis by (simp add: isAddRecord_def)
  next
    case True
    obtain answer a1 where cr: "create (recordResource r) a = (answer, a1)"
      by (cases "create (recordResource r) a")
    obtain res0 a0 calls0 where run: "replayRecords create rs a1 = (res0, a0, calls0)"
      by (cases "replayRecords create rs a1")
    from Cons.prems True cr run
    have out: "res0 = None" "a0 = a'" "calls = (recordResource r, answer) # calls0" "benign answer"
      by (auto simp: benign_def split: option.splits if_splits)
    from run out have "replayRecords create rs a1 = (None, a', calls0)" by simp
    from Cons.IH [OF this] out True show ?thesis by (simp add: isAddRecord_def)
  qed
qed

lemma replayRecords_abort:
  "replayRecords create rs a = (Some err, a', calls) \<Longrightarrow>
   \<not> IsAlreadyExists err \<and>
   (\<exists>pre r post. rs = pre @ r # post \<and> isAddRecord r \<and>
      map fst calls = map recordResource (filter isAddRecord pre) @ [recordResource r] \<and>
      (\<forall>c \<in> set (butlast calls). benign (snd c)) \<and>
      snd (last calls) = Some err)"
proof (induction rs arbitrary: a calls)
  case Nil
  then show ?case by simp
next
  case (Cons r rs)
  show ?case
  proof (cases "recordEvent r = RecorderAdd")
    case False
    with Cons.prems have "replayRecords create rs a = (Some err, a', calls)" by simp
    from Cons.IH [OF this] obtain pre r' post where p:
      "\<not> IsAlreadyExists err" "rs = pre @ r' # post" "isAddRecord r'"
      "map fst calls = map recordResource (filter isAddRecord pre) @ [recordResource r']"
      "\<forall>c \<in> set (butlast calls). benign (snd c)" "snd (last calls) = Some err"
      by blast
    from p False have "r # rs = (r # pre) @ r' # post \<and> isAddRecord r' \<and>
        map fst calls = map recordResource (filter isAddRecord (r # pre)) @ [recordResource r'] \<and>
        (\<forall>c \<in> set (butlast calls). benign (snd c)) \<and> snd (last calls) = Some err"
      by (simp add: isAddRecord_def)
    with p(1) show ?thesis by blast
  next
    case True
    obtain answer a1 where cr: "create (recordResource r) a = (answer, a1)"
      by (cases "create (recordResource r) a")
    show ?thesis
    proof (cases "benign answer")
      case False
      with Cons.prems True cr
      have out: "answer = Some err" "\<not> IsAlreadyExists err" "calls = [(recordResource r, Some err)]"
        by (auto simp: benign_def split: option.splits if_splits)
      from out True have "r # rs = [] @ r # rs \<and> isAddRecord r \<and>
          map fst calls = map recordResource (filter isAddRecord []) @ [recordResource r] \<and>
          (\<forall>c \<in> set (butlast calls). benign (snd c)) \<and> snd (last calls) = Some err"
        by (simp add: isAddRecord_def)
      with out(2) show ?thesis by blast
    next
      case ben: True
      obtain res0 a0 calls0 where run: "replayRecords create rs a1 = (res0, a0, calls0)"
        by (cases "replayRecords create rs a1")
      from Cons.prems True cr run ben
      have out: "res0 = Some err" "a0 = a'" "calls = (recordResource r, answer) # calls0"
        by (auto simp: benign_def split: option.splits if_splits)
      from run out have "replayRecords create rs a1 = (Some err, a', calls0)" by simp
      from Cons.IH [OF this] obtain pre r' post where p:
        "\<not> IsAlreadyExists err" "rs = pre @ r' # post" "isAddRecord r'"
        "map fst calls0 = map recordResource (filter isAddRecord pre) @ [recordResource r']"
        "\<forall>c \<in> set (butlast calls0). benign (snd c)" "snd (last calls0) = Some err"
        by blast
      from p(4) have ne: "calls0 \<noteq> []" by auto
      from p ne out True ben
      have "r # rs = (r # pre) @ r' # post \<and> isAddRecord r' \<and>
          map fst calls = map recordResource (filter isAddRecord (r # pre)) @ [recordResource r'] \<and>
          (\<forall>c \<in> set (butlast calls). benign (snd c)) \<and> snd (last calls) = Some err"
        by (simp add: isAddRecord_def)
      with p(1) show ?thesis by blast
    qed
  qed
qed

text \<open>
  Replaying a journal a second time against the applier that keeps what it created
  leaves the applier's state as the first replay left it: every \<open>Create\<close> of the second
  replay is answered ``already exists''.
\<close>

lemma replay_keepingApplier_state:
  "replayRecords keepingApplier rs st = (res, st', calls) \<Longrightarrow>
   res = None \<and> set st' = set st \<union> recordResource ` {r \<in> set rs. isAddRecord r}"
proof (induction rs arbitrary: st res st' calls)
  case Nil
  then show ?case by simp
next
  case (Cons r rs)
  show ?case
  proof (cases "recordEvent r = RecorderAdd")
    case False
    with Cons.prems have "replayRecords keepingApplier rs st = (res, st', calls)" by simp
    from Cons.IH [OF this] False show ?thesis by (auto simp: isAddRecord_def)
  next
    case True
    obtain answer st1 where cr: "keepingApplier (recordResource r) st = (answer, st1)"
      by (cases "keepingApplier (recordResource r) st")
    then have ben: "benign answer" and st1: "set st1 = insert (recordResource r) (set st)"
      by (auto simp: keepingApplier_def benign_def split: if_splits)
    obtain res0 st0 calls0 where run: "replayRecords keepingApplier rs st1 = (res0, st0, calls0)"
      by (cases "replayRecords keepingApplier rs st1")
    from Cons.prems True cr run ben have out: "res = res0" "st' = st0"
      by (auto simp: benign_def split: option.splits if_splits)
    from Cons.IH [OF run] out st1 True show ?thesis by (auto simp: isAddRecord_def)
  qed
qed

lemma replay_keepingApplier_again:
  "recordResource ` {r \<in> set rs. isAddRecord r} \<subseteq> set st \<Longrightarrow>
   fst (replayRecords keepingApplier rs st) = None \<and>
   fst (snd (replayRecords keepingApplier rs st)) = st \<and>
   (\<forall>c \<in> set (snd (snd (replayRecords keepingApplier rs st))).
      snd c = Some (StatusError StatusReasonAlreadyExists))"
proof (induction rs)
  case Nil
  then show ?case by simp
next
  case (Cons r rs)
  from Cons.prems have sub: "recordResource ` {r \<in> set rs. isAddRecord r} \<subseteq> set st"
    by auto
  note ih = Cons.IH [OF sub]
  show ?case
  proof (cases "recordEvent r = RecorderAdd")
    case False
    with ih show ?thesis by simp
  next
    case True
    with Cons.prems have "recordResource r \<in> set st" by (auto simp: isAddRecord_def)
    then have "keepingApplier (recordResource r) st = (Some (StatusError StatusReasonAlreadyExists), st)"
      by (simp add: keepingApplier_def)
    with True ih show ?thesis by (auto split: prod.splits)
  qed
qed

lemma replay_twice_same_state:
  "fst (snd (replayRecords keepingApplier rs (fst (snd (replayRecords keepingApplier rs []))))) =
   fst (snd (replayRecords keepingApplier rs [])) \<and>
   fst (replayRecords keepingApplier rs (fst (snd (replayRecords keepingApplier rs [])))) = None"
proof -
  obtain res st calls where run: "replayRecords keepingApplier rs [] = (res, st, calls)"
    by (cases "replayRecords keepingApplier rs []")
  from replay_keepingApplier_state [OF run]
  have "recordResource ` {r \<in> set rs. isAddRecord r} \<subseteq> set st" by simp
  from replay_keepingApplier_again [OF this] run show ?thesis by simp
qed

section \<open>Evaluation at the concrete inputs\<close>

lemmas eval_defs = Let_def defaultService_def New_def initialGlobals_def noOptions_def
  createResourceOnDestinationCluster_def updateResourceOnDestinationCluster_def
  deleteResourceOnDestinationCluster_def findGVRForGVK_def coreMapper_def
  runFilteringFunction_def runMutatingFunction_def filterPods_def mutatePods_def mutatePV_def
  FromUnstructured_def ToUnstructured_def removeUnnecessaryMetadata_def accessor_defs
  storeClient_def gvr_def coreObject_def pod1_def pod1Scheduled_def namespace1_def
  addFunc_def updateFunc_def deleteFunc_def VolumeBound_def pv1_def claimRef1_def sourceCluster_def
  pvc1Source_def pvc1Destination_def destinationWithClaim_def pv1NoClaimRef_def
  overridingService_def overridingOptions_def keepPods_def allowPods_def

lemma create_pod1:
  "createResourceOnDestinationCluster defaultService pod1 [] =
     (Ok (),
      [((gvr '''' ''v1'' ''pods'', ''default'', ''pod-1''),
        pod1\<lparr>UID := '''', Generation := 0, ResourceVersion := '''', ServiceAccountName := ''default''\<rparr>)],
      [FilterCall (gvr '''' ''v1'' ''pods'') Add pod1,
       MutateCall (gvr '''' ''v1'' ''pods'') Add (pod1\<lparr>UID := '''', Generation := 0, ResourceVersion := ''''\<rparr>),
       CreateRequest (gvr '''' ''v1'' ''pods'') ''default''
         (pod1\<lparr>UID := '''', Generation := 0, ResourceVersion := '''', ServiceAccountName := ''default''\<rparr>)])"
  by (simp add: eval_defs)

lemma create_namespace1:
  "createResourceOnDestinationCluster defaultService namespace1 [] =
     (Ok (),
      [((gvr '''' ''v1'' ''namespaces'', '''', ''default''),
        namespace1\<lparr>UID := '''', Generation := 0, ResourceVersion := ''''\<rparr>)],
      [CreateRequest (gvr '''' ''v1'' ''namespaces'') ''''
         (namespace1\<lparr>UID := '''', Generation := 0, ResourceVersion := ''''\<rparr>)])"
  by (simp add: eval_defs)

lemma update_pod1:
  "updateResourceOnDestinationCluster defaultService pod1Updated destinationWithPod1 =
     (Ok (),
      [((gvr '''' ''v1'' ''pods'', ''default'', ''pod-1''),
        pod1Updated\<lparr>ServiceAccountName := ''default''\<rparr>)],
      [FilterCall (gvr '''' ''v1'' ''pods'') Update pod1Updated,
       MutateCall (gvr '''' ''v1'' ''pods'') Update pod1Updated,
       UpdateRequest (gvr '''' ''v1'' ''pods'') ''default''
         (pod1Updated\<lparr>ServiceAccountName := ''default''\<rparr>)])"
  by (simp add: eval_defs destinationWithPod1_def pod1Updated_def)

lemma update_pod1Scheduled:
  "updateResourceOnDestinationCluster defaultService pod1Scheduled destinationWithPod1 =
     (Ok (), destinationWithPod1, [FilterCall (gvr '''' ''v1'' ''pods'') Update pod1Scheduled])"
  by (simp add: eval_defs destinationWithPod1_def)

lemma create_pod1Scheduled:
  "createResourceOnDestinationCluster defaultService pod1Scheduled [] =
     (Ok (),
      [((gvr '''' ''v1'' ''pods'', ''default'', ''pod-1''),
        pod1Scheduled\<lparr>UID := '''', Generation := 0, ResourceVersion := '''', ServiceAccountName := ''default''\<rparr>)],
      [FilterCall (gvr '''' ''v1'' ''pods'') Add pod1Scheduled,
       MutateCall (gvr '''' ''v1'' ''pods'') Add (pod1Scheduled\<lparr>UID := '''', Generation := 0, ResourceVersion := ''''\<rparr>),
       CreateRequest (gvr '''' ''v1'' ''pods'') ''default''
         (pod1Scheduled\<lparr>UID := '''', Generation := 0, ResourceVersion := '''', ServiceAccountName := ''default''\<rparr>)])"
  by (simp add: eval_defs)

lemma delete_pod1Scheduled:
  "deleteFunc defaultService (Unstructured pod1Scheduled) destinationWithPod1 =
     ([], [DeleteRequest (gvr '''' ''v1'' ''pods'') ''default'' ''pod-1''])"
  by (simp add: eval_defs destinationWithPod1_def)

lemma add_pv1NoClaimRef:
  "addFunc defaultService (Unstructured pv1NoClaimRef) [] =
     ([], [MutateCall (gvr '''' ''v1'' ''persistentvolumes'') Add
             (pv1NoClaimRef\<lparr>UID := '''', Generation := 0, ResourceVersion := ''''\<rparr>), Crash])"
  by (simp add: eval_defs)

lemma update_missing_pod1:
  "updateResourceOnDestinationCluster defaultService pod1Updated [] =
     (Err (Errorf ''failed to create resource'' (StatusError StatusReasonNotFound)), [],
      [FilterCall (gvr '''' ''v1'' ''pods'') Update pod1Updated,
       MutateCall (gvr '''' ''v1'' ''pods'') Update pod1Updated,
       UpdateRequest (gvr '''' ''v1'' ''pods'') ''default''
         (pod1Updated\<lparr>ServiceAccountName := ''default''\<rparr>)])"
  by (simp add: eval_defs pod1Updated_def)

lemma create_unknown_kind:
  "createResourceOnDestinationCluster defaultService (coreObject ''Widget'' ''default'' ''w-1'') [] =
     (Err NoKindMatchError, [], [])"
  by (simp add: eval_defs)

lemma delete_missing_pod1:
  "deleteResourceOnDestinationCluster defaultService pod1 [] =
     (Err (Errorf ''failed to delete resource'' (StatusError StatusReasonNotFound)), [],
      [DeleteRequest (gvr '''' ''v1'' ''pods'') ''default'' ''pod-1''])"
  by (simp add: eval_defs)

lemmas journal_defs = readJournal_def unmarshalRecords_def unmarshalRecord_def eventOfName_def
  exampleJournal_def exampleRecords_def Replay_def

lemma read_exampleJournal: "readJournal exampleJournal = Some exampleRecords"
  by (simp add: journal_defs)

lemma replay_exampleJournal:
  "Replay keepingApplier exampleJournal [] =
     (None, [jsonPod ''pod-1'', jsonPod ''pod-2''],
      [(jsonPod ''pod-1'', None),
       (jsonPod ''pod-1'', Some (StatusError StatusReasonAlreadyExists)),
       (jsonPod ''pod-2'', None)])"
  by (simp add: journal_defs keepingApplier_def jsonPod_def jsonPodOnNode_def)

lemma replay_exampleJournal_failing:
  "Replay (mockApplier (Some (OtherError ''failed to create resource''))) exampleJournal () =
     (Some (OtherError ''failed to create resource''), (),
      [(jsonPod ''pod-1'', Some (OtherError ''failed to create resource''))])"
  by (simp add: journal_defs mockApplier_def)

lemmas more_eval_defs = widget1_def refusingFilter_def refusingOptions_def refusingService_def
  pod1Undecodable_def pv1Orphan_def pod1Updated_def destinationWithPod1_def

section \<open>The claims\<close>

text \<open>
  Claim C1. On the create path (every Add event that resolves and is not stopped by the
  filtering function), \<^verbatim>\<open>removeUnnecessaryMetadata\<close> is applied for every kind, without
  condition, before the mutating function runs: the mutating function is called on the
  object with UID, generation and resourceVersion cleared, and the object of the one
  \<^verbatim>\<open>Create\<close> request is that object (no mutating function registered) or what the
  mutating function returned for it. With no mutating function or a mandatory one
  (\<^verbatim>\<open>mutatePV\<close>, \<^verbatim>\<open>mutatePods\<close>) the object handed to \<^verbatim>\<open>Create\<close> has the three
  fields cleared.
\<close>

theorem create_strips_server_metadata:
  assumes "createResourceOnDestinationCluster s resource d = (ret, d', effs)"
    and "CreateRequest r ns obj \<in> set effs"
  shows "findGVRForGVK s (gvk resource) = Inr r \<and> ns = GetNamespace resource \<and>
     stripped (removeUnnecessaryMetadata resource) \<and>
     (\<forall>g e x. MutateCall g e x \<in> set effs \<longrightarrow> x = removeUnnecessaryMetadata resource) \<and>
     (case mutatingFunctions s r of
        None \<Rightarrow> obj = removeUnnecessaryMetadata resource
      | Some f \<Rightarrow> f (removeUnnecessaryMetadata resource) (clients s) Add = Ok obj) \<and>
     (mutatingFunctions s r = None \<or> mutatingFunctions s r = Some mutatePV \<or>
      mutatingFunctions s r = Some mutatePods \<longrightarrow> stripped obj)"
proof -
  from create_request_shape [OF assms] obtain fe me where
    r: "findGVRForGVK s (gvk resource) = Inr r" and ns: "ns = GetNamespace resource" and
    f: "runFilteringFunction s r resource Add = (None, fe)" and
    m: "runMutatingFunction s r (removeUnnecessaryMetadata resource) Add = (Ok obj, me)" and
    effs: "effs = fe @ me @ [CreateRequest r ns obj]"
    by blast
  have calls: "\<forall>g e x. MutateCall g e x \<in> set effs \<longrightarrow> x = removeUnnecessaryMetadata resource"
    using runFilteringFunction_effects [OF f] runMutatingFunction_effects [OF m] effs by auto
  have sel: "case mutatingFunctions s r of
        None \<Rightarrow> obj = removeUnnecessaryMetadata resource
      | Some f \<Rightarrow> f (removeUnnecessaryMetadata resource) (clients s) Add = Ok obj"
    using runMutatingFunction_Ok [OF m] .
  have keep: "stripped obj"
    if "mutatingFunctions s r = None \<or> mutatingFunctions s r = Some mutatePV \<or>
        mutatingFunctions s r = Some mutatePods"
  proof -
    from that consider (none) "mutatingFunctions s r = None"
      | (pv) "mutatingFunctions s r = Some mutatePV"
      | (pods) "mutatingFunctions s r = Some mutatePods" by argo
    then show ?thesis
    proof cases
      case none
      with sel show ?thesis by (simp add: stripped_removeUnnecessaryMetadata)
    next
      case pv
      with sel have "mutatePV (removeUnnecessaryMetadata resource) (clients s) Add = Ok obj"
        by simp
      from mutatePV_keeps_metadata [OF this] stripped_removeUnnecessaryMetadata [of resource]
      show ?thesis by (simp add: stripped_def)
    next
      case pods
      with sel have "mutatePods (removeUnnecessaryMetadata resource) (clients s) Add = Ok obj"
        by simp
      from mutatePods_keeps_metadata [OF this] stripped_removeUnnecessaryMetadata [of resource]
      show ?thesis by (simp add: stripped_def)
    qed
  qed
  from r ns calls sel keep stripped_removeUnnecessaryMetadata show ?thesis by blast
qed

theorem create_strips_server_metadata_witness:
  "createResourceOnDestinationCluster defaultService pod1 [] =
     (Ok (),
      [((gvr '''' ''v1'' ''pods'', ''default'', ''pod-1''),
        pod1\<lparr>UID := '''', Generation := 0, ResourceVersion := '''', ServiceAccountName := ''default''\<rparr>)],
      [FilterCall (gvr '''' ''v1'' ''pods'') Add pod1,
       MutateCall (gvr '''' ''v1'' ''pods'') Add (pod1\<lparr>UID := '''', Generation := 0, ResourceVersion := ''''\<rparr>),
       CreateRequest (gvr '''' ''v1'' ''pods'') ''default''
         (pod1\<lparr>UID := '''', Generation := 0, ResourceVersion := '''', ServiceAccountName := ''default''\<rparr>)]) \<and>
   GetUID pod1 = ''6f1a'' \<and> GetGeneration pod1 = 1 \<and> GetResourceVersion pod1 = ''812'' \<and>
   mutatingFunctions defaultService (gvr '''' ''v1'' ''pods'') = Some mutatePods \<and>
   stripped (pod1\<lparr>UID := '''', Generation := 0, ResourceVersion := '''', ServiceAccountName := ''default''\<rparr>)"
proof -
  let ?obj = "pod1\<lparr>UID := '''', Generation := 0, ResourceVersion := '''', ServiceAccountName := ''default''\<rparr>"
  let ?effs = "[FilterCall (gvr '''' ''v1'' ''pods'') Add pod1,
       MutateCall (gvr '''' ''v1'' ''pods'') Add (pod1\<lparr>UID := '''', Generation := 0, ResourceVersion := ''''\<rparr>),
       CreateRequest (gvr '''' ''v1'' ''pods'') ''default'' ?obj]"
  have run: "createResourceOnDestinationCluster defaultService pod1 [] =
     (Ok (), [((gvr '''' ''v1'' ''pods'', ''default'', ''pod-1''), ?obj)], ?effs)"
    by (rule create_pod1)
  have req: "CreateRequest (gvr '''' ''v1'' ''pods'') ''default'' ?obj \<in> set ?effs"
    by simp
  have reg: "mutatingFunctions defaultService (gvr '''' ''v1'' ''pods'') = Some mutatePods"
    by (simp add: defaultService_def New_def initialGlobals_def noOptions_def gvr_def Let_def)
  have src: "GetUID pod1 = ''6f1a'' \<and> GetGeneration pod1 = 1 \<and> GetResourceVersion pod1 = ''812''"
    by (simp add: pod1_def accessor_defs)
  from create_strips_server_metadata [OF run req] reg have "stripped ?obj"
    by blast
  with run reg src show ?thesis by blast
qed

text \<open>
  Claim C2. For every non-empty sequence of events the recorder observes, reading the
  journal file back and decoding it gives the records of exactly these events, one per
  event and in the order observed, each with the object as it was observed.
\<close>

theorem journal_reads_back_what_was_observed:
  assumes "evs \<noteq> []"
  shows "readJournal (journalFile (RecorderObserveAll evs RecorderNew)) = Some (map recordOf evs)"
  using RecorderObserveAll_state [OF assms, of RecorderNew]
  by (simp add: readJournal_def RecorderNew_def unmarshalRecords_marshalRecords)

theorem journal_reads_back_what_was_observed_witness:
  "[(RecorderAdd, jsonPod ''pod-1''), (RecorderUpdate, jsonPodOnNode ''pod-1'' ''node-1''),
    (RecorderDelete, jsonPod ''pod-1'')] \<noteq> [] \<and>
   readJournal (journalFile (RecorderObserveAll
      [(RecorderAdd, jsonPod ''pod-1''), (RecorderUpdate, jsonPodOnNode ''pod-1'' ''node-1''),
       (RecorderDelete, jsonPod ''pod-1'')] RecorderNew)) =
     Some [\<lparr>recordEvent = RecorderAdd, recordResource = jsonPod ''pod-1''\<rparr>,
           \<lparr>recordEvent = RecorderUpdate, recordResource = jsonPodOnNode ''pod-1'' ''node-1''\<rparr>,
           \<lparr>recordEvent = RecorderDelete, recordResource = jsonPod ''pod-1''\<rparr>]"
  using journal_reads_back_what_was_observed
    [of "[(RecorderAdd, jsonPod ''pod-1''), (RecorderUpdate, jsonPodOnNode ''pod-1'' ''node-1''),
          (RecorderDelete, jsonPod ''pod-1'')]"]
  by (simp add: recordOf_def)

text \<open>
  Claim C3. For every journal that reads as the records \<open>rs\<close>, \<open>Replay\<close> calls \<open>Create\<close>
  on the objects of Add records only, in file order, each call from the applier's state
  the call before left. If it returns nil, it has called \<open>Create\<close> for every Add record
  and each call returned nil or ``already exists''. If it returns an error, the error
  is not ``already exists'', it is what the last call of \<open>Create\<close> returned, all calls
  before returned nil or ``already exists'', and no record after that one is replayed.
\<close>

theorem Replay_create_policy:
  assumes "readJournal file = Some rs"
    and "Replay create file a = (res, a', calls)"
  shows "calls = answers create (map fst calls) a \<and>
     (case res of
        None \<Rightarrow>
          map fst calls = map recordResource (filter isAddRecord rs) \<and>
          (\<forall>c \<in> set calls. benign (snd c))
      | Some err \<Rightarrow>
          \<not> IsAlreadyExists err \<and>
          (\<exists>pre r post. rs = pre @ r # post \<and> isAddRecord r \<and>
             map fst calls = map recordResource (filter isAddRecord pre) @ [recordResource r] \<and>
             (\<forall>c \<in> set (butlast calls). benign (snd c)) \<and>
             snd (last calls) = Some err))"
proof -
  from assms have run: "replayRecords create rs a = (res, a', calls)"
    by (simp add: Replay_def)
  have faithful: "calls = answers create (map fst calls) a"
    using replayRecords_faithful [OF run] .
  show ?thesis
  proof (cases res)
    case None
    with run have "replayRecords create rs a = (None, a', calls)" by simp
    from replayRecords_success [OF this] None faithful show ?thesis by simp
  next
    case (Some err)
    with run have "replayRecords create rs a = (Some err, a', calls)" by simp
    from replayRecords_abort [OF this] Some faithful show ?thesis by simp
  qed
qed

theorem Replay_create_policy_witness:
  "readJournal exampleJournal = Some exampleRecords \<and>
   Replay keepingApplier exampleJournal [] =
     (None, [jsonPod ''pod-1'', jsonPod ''pod-2''],
      [(jsonPod ''pod-1'', None),
       (jsonPod ''pod-1'', Some (StatusError StatusReasonAlreadyExists)),
       (jsonPod ''pod-2'', None)]) \<and>
   map recordResource (filter isAddRecord exampleRecords) =
     [jsonPod ''pod-1'', jsonPod ''pod-1'', jsonPod ''pod-2''] \<and>
   benign (Some (StatusError StatusReasonAlreadyExists)) \<and>
   Replay (mockApplier (Some (OtherError ''failed to create resource''))) exampleJournal () =
     (Some (OtherError ''failed to create resource''), (),
      [(jsonPod ''pod-1'', Some (OtherError ''failed to create resource''))]) \<and>
   \<not> IsAlreadyExists (OtherError ''failed to create resource'')"
proof -
  note ok = Replay_create_policy [OF read_exampleJournal replay_exampleJournal]
  note bad = Replay_create_policy [OF read_exampleJournal replay_exampleJournal_failing]
  from ok have adds: "map recordResource (filter isAddRecord exampleRecords) =
     [jsonPod ''pod-1'', jsonPod ''pod-1'', jsonPod ''pod-2'']"
    by simp
  from ok have ben: "benign (Some (StatusError StatusReasonAlreadyExists))"
    by simp
  from bad have hard: "\<not> IsAlreadyExists (OtherError ''failed to create resource'')"
    by simp
  from read_exampleJournal replay_exampleJournal adds ben replay_exampleJournal_failing hard
  show ?thesis by blast
qed

text \<open>
  Claim C4. \<^verbatim>\<open>filterPods\<close> lets every Add event pass, whatever \<^verbatim>\<open>spec.nodeName\<close> is;
  it returns false for an Update event of an object with a non-empty \<^verbatim>\<open>spec.nodeName\<close>,
  and then the update path sends nothing to the destination and leaves it as it was;
  an Update event of a (decodable) pod with an empty \<^verbatim>\<open>spec.nodeName\<close> passes.
\<close>

theorem filterPods_suppresses_placed_updates:
  "filterPods resource cl Add = (True, None) \<and>
   (NodeName resource \<noteq> '''' \<longrightarrow> fst (filterPods resource cl Update) = False) \<and>
   (decodable resource \<and> NodeName resource = '''' \<longrightarrow> filterPods resource cl Update = (True, None)) \<and>
   (NodeName resource \<noteq> '''' \<and> findGVRForGVK s (gvk resource) = Inr r \<and>
    filteringFunctions s r = Some filterPods \<longrightarrow>
      (\<exists>ret. updateResourceOnDestinationCluster s resource d = (ret, d, [FilterCall r Update resource])))"
  by (auto simp: filterPods_def FromUnstructured_def updateResourceOnDestinationCluster_def
        runFilteringFunction_def Let_def split: sum.splits)

theorem filterPods_suppresses_placed_updates_witness:
  "NodeName pod1Scheduled = ''node-1'' \<and>
   findGVRForGVK defaultService (gvk pod1Scheduled) = Inr (gvr '''' ''v1'' ''pods'') \<and>
   filteringFunctions defaultService (gvr '''' ''v1'' ''pods'') = Some filterPods \<and>
   filterPods pod1Scheduled (clients defaultService) Add = (True, None) \<and>
   fst (filterPods pod1Scheduled (clients defaultService) Update) = False \<and>
   decodable pod1 \<and> NodeName pod1 = '''' \<and>
   filterPods pod1 (clients defaultService) Update = (True, None) \<and>
   updateResourceOnDestinationCluster defaultService pod1Scheduled destinationWithPod1 =
     (Ok (), destinationWithPod1, [FilterCall (gvr '''' ''v1'' ''pods'') Update pod1Scheduled])"
proof -
  have node: "NodeName pod1Scheduled = ''node-1''"
    by (simp add: pod1Scheduled_def)
  have res: "findGVRForGVK defaultService (gvk pod1Scheduled) = Inr (gvr '''' ''v1'' ''pods'')"
    by (simp add: eval_defs)
  have reg: "filteringFunctions defaultService (gvr '''' ''v1'' ''pods'') = Some filterPods"
    by (simp add: defaultService_def New_def initialGlobals_def noOptions_def gvr_def Let_def)
  have unplaced: "decodable pod1 \<and> NodeName pod1 = ''''"
    by (simp add: pod1_def coreObject_def)
  note placed = filterPods_suppresses_placed_updates
    [of pod1Scheduled "clients defaultService" defaultService "gvr '''' ''v1'' ''pods''" destinationWithPod1]
  note free = filterPods_suppresses_placed_updates
    [of pod1 "clients defaultService" defaultService "gvr '''' ''v1'' ''pods''" destinationWithPod1]
  from placed node res reg
  have "\<exists>ret. updateResourceOnDestinationCluster defaultService pod1Scheduled destinationWithPod1 =
     (ret, destinationWithPod1, [FilterCall (gvr '''' ''v1'' ''pods'') Update pod1Scheduled])"
    by simp
  with update_pod1Scheduled
  have run: "updateResourceOnDestinationCluster defaultService pod1Scheduled destinationWithPod1 =
     (Ok (), destinationWithPod1, [FilterCall (gvr '''' ''v1'' ''pods'') Update pod1Scheduled])"
    by simp
  from placed node have "filterPods pod1Scheduled (clients defaultService) Add = (True, None) \<and>
    fst (filterPods pod1Scheduled (clients defaultService) Update) = False"
    by simp
  moreover from free unplaced have "filterPods pod1 (clients defaultService) Update = (True, None)"
    by simp
  ultimately show ?thesis using node res reg unplaced run by blast
qed

text \<open>
  Claim C5 at a bound volume whose claim has the UID \<open>a1-src\<close> on the source and
  \<open>b2-dest\<close> on the destination: \<^verbatim>\<open>mutatePV\<close> reads the claim from the source
  client, so the volume handed to \<^verbatim>\<open>Create\<close> refers to the claim by \<open>a1-src\<close>.
\<close>

theorem mutatePV_writes_source_side_uid:
  "SrcDynamicClient (clients defaultService) (gvr '''' ''v1'' ''persistentvolumeclaims'')
      ''default'' ''pvc-1'' = Inr pvc1Source \<and>
   GetUID pvc1Source = ''a1-src'' \<and>
   DestGet (DestDynamicClient (clients defaultService)) (gvr '''' ''v1'' ''persistentvolumeclaims'')
      ''default'' ''pvc-1'' destinationWithClaim = Inr pvc1Destination \<and>
   GetUID pvc1Destination = ''b2-dest'' \<and>
   Phase pv1 = VolumeBound \<and>
   mutatePV pv1 (clients defaultService) Add =
     Ok (pv1\<lparr>ClaimRef := Some (claimRef1\<lparr>refUID := ''a1-src''\<rparr>)\<rparr>) \<and>
   snd (addFunc defaultService (Unstructured pv1) destinationWithClaim) =
     [MutateCall (gvr '''' ''v1'' ''persistentvolumes'') Add
        (pv1\<lparr>UID := '''', Generation := 0, ResourceVersion := ''''\<rparr>),
      CreateRequest (gvr '''' ''v1'' ''persistentvolumes'') ''''
        (pv1\<lparr>UID := '''', Generation := 0, ResourceVersion := '''',
              ClaimRef := Some (claimRef1\<lparr>refUID := ''a1-src''\<rparr>)\<rparr>)]"
  by (simp add: eval_defs)

text \<open>
  Claim C6, as stated, fails: for pods, where \<^verbatim>\<open>mutatePods\<close> is mandatory, a service
  built with an additional mutating function runs the additional function only; the
  created pod keeps its service account, which \<^verbatim>\<open>mutatePods\<close> would have reset.
\<close>

theorem mandatory_entry_not_run_before_additional:
  "AdditionalMutatingFunctions overridingOptions (gvr '''' ''v1'' ''pods'') = Some keepPods \<and>
   MandatoryMutatingFunctions initialGlobals (gvr '''' ''v1'' ''pods'') = Some (mutatePods :: store MutatingFunction) \<and>
   overridingService = fst (New sourceCluster storeClient coreMapper overridingOptions initialGlobals) \<and>
   ServiceAccountName pod1 = ''builder'' \<and>
   mutatePods (removeUnnecessaryMetadata pod1) (clients overridingService) Add =
     Ok (pod1\<lparr>UID := '''', Generation := 0, ResourceVersion := '''', ServiceAccountName := ''default''\<rparr>) \<and>
   addFunc overridingService (Unstructured pod1) [] =
     ([((gvr '''' ''v1'' ''pods'', ''default'', ''pod-1''),
        pod1\<lparr>UID := '''', Generation := 0, ResourceVersion := ''''\<rparr>)],
      [FilterCall (gvr '''' ''v1'' ''pods'') Add pod1,
       MutateCall (gvr '''' ''v1'' ''pods'') Add (pod1\<lparr>UID := '''', Generation := 0, ResourceVersion := ''''\<rparr>),
       CreateRequest (gvr '''' ''v1'' ''pods'') ''default''
         (pod1\<lparr>UID := '''', Generation := 0, ResourceVersion := ''''\<rparr>)]) \<and>
   ServiceAccountName (pod1\<lparr>UID := '''', Generation := 0, ResourceVersion := ''''\<rparr>) \<noteq> ''default''"
  by (simp add: eval_defs)

text \<open>
  Claim C6, amended. In the service built by \<^verbatim>\<open>New\<close>, an additional entry takes the
  place of the mandatory entry of the same kind, and a kind without an additional entry
  keeps the mandatory one: for a kind with an additional entry the pipeline calls the
  additional function, once, and its result is the step's result.
\<close>

theorem New_runs_only_the_additional_entry:
  "mutatingFunctions (fst (New src dc rm opts g)) k =
     (case AdditionalMutatingFunctions opts k of
        Some f \<Rightarrow> Some f
      | None \<Rightarrow> MandatoryMutatingFunctions g k) \<and>
   filteringFunctions (fst (New src dc rm opts g)) k =
     (case AdditionalFilteringFunctions opts k of
        Some f \<Rightarrow> Some f
      | None \<Rightarrow> MandatoryFilteringFunctions g k) \<and>
   (AdditionalMutatingFunctions opts k = Some f \<longrightarrow>
      runMutatingFunction (fst (New src dc rm opts g)) k resource event =
        (case f resource (clients (fst (New src dc rm opts g))) event of
           Ok resource' \<Rightarrow> Ok resource'
         | Err err \<Rightarrow> Err (Errorf ''failed to mutate resource'' err)
         | Panic \<Rightarrow> Panic,
         [MutateCall k event resource])) \<and>
   (AdditionalFilteringFunctions opts k = Some ff \<longrightarrow>
      snd (runFilteringFunction (fst (New src dc rm opts g)) k resource event) =
        [FilterCall k event resource] \<and>
      (fst (runFilteringFunction (fst (New src dc rm opts g)) k resource event) = None) =
        (ff resource (clients (fst (New src dc rm opts g))) event = (True, None)))"
  by (auto simp: New_def Let_def map_add_def runMutatingFunction_def runFilteringFunction_def
        split: option.splits result.splits prod.splits)

theorem New_runs_only_the_additional_entry_witness:
  "AdditionalMutatingFunctions overridingOptions (gvr '''' ''v1'' ''pods'') = Some keepPods \<and>
   AdditionalFilteringFunctions overridingOptions (gvr '''' ''v1'' ''pods'') = Some allowPods \<and>
   mutatingFunctions overridingService (gvr '''' ''v1'' ''pods'') = Some keepPods \<and>
   filteringFunctions overridingService (gvr '''' ''v1'' ''pods'') = Some allowPods \<and>
   mutatingFunctions overridingService (gvr '''' ''v1'' ''persistentvolumes'') = Some mutatePV \<and>
   runMutatingFunction overridingService (gvr '''' ''v1'' ''pods'') pod1 Add =
     (Ok pod1, [MutateCall (gvr '''' ''v1'' ''pods'') Add pod1]) \<and>
   runFilteringFunction overridingService (gvr '''' ''v1'' ''pods'') pod1Scheduled Update =
     (None, [FilterCall (gvr '''' ''v1'' ''pods'') Update pod1Scheduled])"
proof -
  note pods = New_runs_only_the_additional_entry
    [of sourceCluster storeClient coreMapper overridingOptions initialGlobals
        "gvr '''' ''v1'' ''pods''" keepPods pod1 Add allowPods, folded overridingService_def]
  note podsU = New_runs_only_the_additional_entry
    [of sourceCluster storeClient coreMapper overridingOptions initialGlobals
        "gvr '''' ''v1'' ''pods''" keepPods pod1Scheduled Update allowPods, folded overridingService_def]
  note pvs = New_runs_only_the_additional_entry
    [of sourceCluster storeClient coreMapper overridingOptions initialGlobals
        "gvr '''' ''v1'' ''persistentvolumes''" keepPods pod1 Add allowPods, folded overridingService_def]
  have am: "AdditionalMutatingFunctions overridingOptions (gvr '''' ''v1'' ''pods'') = Some keepPods"
    by (simp add: overridingOptions_def)
  have af: "AdditionalFilteringFunctions overridingOptions (gvr '''' ''v1'' ''pods'') = Some allowPods"
    by (simp add: overridingOptions_def)
  have none: "AdditionalMutatingFunctions overridingOptions (gvr '''' ''v1'' ''persistentvolumes'') = None"
    by (simp add: overridingOptions_def gvr_def)
  have mand: "MandatoryMutatingFunctions initialGlobals (gvr '''' ''v1'' ''persistentvolumes'') =
      Some (mutatePV :: store MutatingFunction)"
    by (simp add: initialGlobals_def gvr_def)
  from pods am have m: "mutatingFunctions overridingService (gvr '''' ''v1'' ''pods'') = Some keepPods"
    by simp
  from pods af have f: "filteringFunctions overridingService (gvr '''' ''v1'' ''pods'') = Some allowPods"
    by simp
  from pvs none mand
  have pv: "mutatingFunctions overridingService (gvr '''' ''v1'' ''persistentvolumes'') = Some mutatePV"
    by simp
  from pods am
  have rm: "runMutatingFunction overridingService (gvr '''' ''v1'' ''pods'') pod1 Add =
     (Ok pod1, [MutateCall (gvr '''' ''v1'' ''pods'') Add pod1])"
    by (simp add: keepPods_def)
  from podsU af
  have "snd (runFilteringFunction overridingService (gvr '''' ''v1'' ''pods'') pod1Scheduled Update) =
          [FilterCall (gvr '''' ''v1'' ''pods'') Update pod1Scheduled] \<and>
        fst (runFilteringFunction overridingService (gvr '''' ''v1'' ''pods'') pod1Scheduled Update) = None"
    by (simp add: allowPods_def)
  then have rf: "runFilteringFunction overridingService (gvr '''' ''v1'' ''pods'') pod1Scheduled Update =
     (None, [FilterCall (gvr '''' ''v1'' ''pods'') Update pod1Scheduled])"
    by (simp add: prod_eq_iff)
  from am af m f pv rm rf show ?thesis by blast
qed

text \<open>
  Claim C7, as stated, fails: an ``already exists'' error of the destination on the
  create path is logged with \<^verbatim>\<open>klog.ErrorS\<close> as a failure, like any other error.
\<close>

theorem create_already_exists_is_logged_as_failure:
  "addFunc defaultService (Unstructured pod1) destinationWithPod1 =
     (destinationWithPod1,
      [FilterCall (gvr '''' ''v1'' ''pods'') Add pod1,
       MutateCall (gvr '''' ''v1'' ''pods'') Add
         (pod1\<lparr>UID := '''', Generation := 0, ResourceVersion := ''''\<rparr>),
       CreateRequest (gvr '''' ''v1'' ''pods'') ''default''
         (pod1\<lparr>UID := '''', Generation := 0, ResourceVersion := '''',
               ServiceAccountName := ''default''\<rparr>),
       LogErrorS (Errorf ''failed to create resource'' (StatusError StatusReasonAlreadyExists))
         ''Failed to create resource on destination cluster'']) \<and>
   IsAlreadyExists (Errorf ''failed to create resource'' (StatusError StatusReasonAlreadyExists))"
  by (simp add: eval_defs destinationWithPod1_def)

text \<open>
  Claim C7, amended. Every handler sends the destination at most one request (no retry,
  no requeue). An error of the kind resolution, an error returned by the filtering
  function, an error returned by the mutating function and an error of the
  destination's write each end the handling of the event with one log line that
  carries the error, after the calls and the request made so far. On the create path
  the line is a \<^verbatim>\<open>klog.ErrorS\<close> failure whatever the error, ``already exists''
  included; on the update path and the delete path it is a \<^verbatim>\<open>klog.Info\<close> skip when
  the error is ``not found'' and a \<^verbatim>\<open>klog.ErrorS\<close> failure otherwise.
\<close>

theorem handlers_log_and_drop:
  "length (filter isRequest (snd (handle s n d))) \<le> 1 \<and>
   (findGVRForGVK s (gvk u) = Inl err \<longrightarrow>
      handle s (OnAdd (Unstructured u)) d =
        (d, [LogErrorS err ''Failed to create resource on destination cluster'']) \<and>
      handle s (OnUpdate old (Unstructured u)) d =
        (d, [if IsNotFound err
             then LogInfo ''Skipped to update resource on destination: '' err
             else LogErrorS err ''Failed to update resource on destination cluster'']) \<and>
      handle s (OnDelete (Unstructured u)) d =
        (d, [if IsNotFound err
             then LogInfo ''Skipped to delete resource on destination: '' err
             else LogErrorS err ''Failed to delete resource on destination cluster''])) \<and>
   (findGVRForGVK s (gvk u) = Inr r \<and> filteringFunctions s r = Some f \<and>
    f u (clients s) Add = (ok, Some err) \<longrightarrow>
      handle s (OnAdd (Unstructured u)) d =
        (d, [FilterCall r Add u,
             LogErrorS err ''Failed to create resource on destination cluster''])) \<and>
   (findGVRForGVK s (gvk u) = Inr r \<and> filteringFunctions s r = Some f \<and>
    f u (clients s) Update = (ok, Some err) \<longrightarrow>
      handle s (OnUpdate old (Unstructured u)) d =
        (d, [FilterCall r Update u,
             if IsNotFound err
             then LogInfo ''Skipped to update resource on destination: '' err
             else LogErrorS err ''Failed to update resource on destination cluster''])) \<and>
   (findGVRForGVK s (gvk u) = Inr r \<and> mutatingFunctions s r = Some m \<and>
    runFilteringFunction s r u Add = (None, fe) \<and>
    m (removeUnnecessaryMetadata u) (clients s) Add = Err err \<longrightarrow>
      handle s (OnAdd (Unstructured u)) d =
        (d, fe @ [MutateCall r Add (removeUnnecessaryMetadata u),
                  LogErrorS (Errorf ''failed to mutate resource'' err)
                    ''Failed to create resource on destination cluster''])) \<and>
   (findGVRForGVK s (gvk u) = Inr r \<and> mutatingFunctions s r = Some m \<and>
    runFilteringFunction s r u Update = (None, fe) \<and>
    m u (clients s) Update = Err err \<longrightarrow>
      handle s (OnUpdate old (Unstructured u)) d =
        (d, fe @ [MutateCall r Update u,
                  if IsNotFound err
                  then LogInfo ''Skipped to update resource on destination: ''
                         (Errorf ''failed to mutate resource'' err)
                  else LogErrorS (Errorf ''failed to mutate resource'' err)
                         ''Failed to update resource on destination cluster''])) \<and>
   (findGVRForGVK s (gvk u) = Inr r \<and>
    runFilteringFunction s r u Add = (None, fe) \<and>
    runMutatingFunction s r (removeUnnecessaryMetadata u) Add = (Ok obj, me) \<and>
    DestCreate (DestDynamicClient (clients s)) r (GetNamespace u) obj d = (Some err, d') \<longrightarrow>
      handle s (OnAdd (Unstructured u)) d =
        (d', fe @ me @ [CreateRequest r (GetNamespace u) obj,
                        LogErrorS (Errorf ''failed to create resource'' err)
                          ''Failed to create resource on destination cluster''])) \<and>
   (findGVRForGVK s (gvk u) = Inr r \<and>
    runFilteringFunction s r u Update = (None, fe) \<and>
    runMutatingFunction s r u Update = (Ok obj, me) \<and>
    DestUpdate (DestDynamicClient (clients s)) r (GetNamespace u) obj d = (Some err, d') \<longrightarrow>
      handle s (OnUpdate old (Unstructured u)) d =
        (d', fe @ me @ [UpdateRequest r (GetNamespace u) obj,
                        if IsNotFound err
                        then LogInfo ''Skipped to update resource on destination: ''
                               (Errorf ''failed to create resource'' err)
                        else LogErrorS (Errorf ''failed to create resource'' err)
                               ''Failed to update resource on destination cluster''])) \<and>
   (findGVRForGVK s (gvk u) = Inr r \<and>
    DestDelete (DestDynamicClient (clients s)) r (GetNamespace u) (GetName u) d = (Some err, d') \<longrightarrow>
      handle s (OnDelete (Unstructured u)) d =
        (d', [DeleteRequest r (GetNamespace u) (GetName u),
              if IsNotFound err
              then LogInfo ''Skipped to delete resource on destination: ''
                     (Errorf ''failed to delete resource'' err)
              else LogErrorS (Errorf ''failed to delete resource'' err)
                     ''Failed to delete resource on destination cluster'']))"
proof (intro conjI impI)
  show "length (filter isRequest (snd (handle s n d))) \<le> 1"
    by (rule handle_one_request)
qed ((elim conjE)?,
     (rule add_resolution_error update_resolution_error delete_resolution_error
           add_filter_error update_filter_error add_mutator_error update_mutator_error
           add_write_error update_write_error delete_write_error; assumption))+

theorem handlers_log_and_drop_witness:
  "findGVRForGVK defaultService (gvk widget1) = Inl NoKindMatchError \<and>
   handle defaultService (OnAdd (Unstructured widget1)) [] =
     ([], [LogErrorS NoKindMatchError ''Failed to create resource on destination cluster'']) \<and>
   handle defaultService (OnUpdate (Unstructured widget1) (Unstructured widget1)) [] =
     ([], [LogErrorS NoKindMatchError ''Failed to update resource on destination cluster'']) \<and>
   handle defaultService (OnDelete (Unstructured widget1)) [] =
     ([], [LogErrorS NoKindMatchError ''Failed to delete resource on destination cluster'']) \<and>
   refusingFilter namespace1 (clients refusingService) Add = (False, Some (OtherError ''refused'')) \<and>
   handle refusingService (OnAdd (Unstructured namespace1)) [] =
     ([], [FilterCall (gvr '''' ''v1'' ''namespaces'') Add namespace1,
           LogErrorS (OtherError ''refused'') ''Failed to create resource on destination cluster'']) \<and>
   filterPods pod1Undecodable (clients defaultService) Update = (False, Some ConversionError) \<and>
   handle defaultService (OnUpdate (Unstructured pod1) (Unstructured pod1Undecodable))
       destinationWithPod1 =
     (destinationWithPod1,
      [FilterCall (gvr '''' ''v1'' ''pods'') Update pod1Undecodable,
       LogErrorS ConversionError ''Failed to update resource on destination cluster'']) \<and>
   mutatePV (removeUnnecessaryMetadata pv1Orphan) (clients defaultService) Add =
     Err (StatusError StatusReasonNotFound) \<and>
   handle defaultService (OnAdd (Unstructured pv1Orphan)) [] =
     ([], [MutateCall (gvr '''' ''v1'' ''persistentvolumes'') Add (removeUnnecessaryMetadata pv1Orphan),
           LogErrorS (Errorf ''failed to mutate resource'' (StatusError StatusReasonNotFound))
             ''Failed to create resource on destination cluster'']) \<and>
   handle defaultService (OnUpdate (Unstructured pv1) (Unstructured pv1Orphan)) [] =
     ([], [MutateCall (gvr '''' ''v1'' ''persistentvolumes'') Update pv1Orphan,
           LogInfo ''Skipped to update resource on destination: ''
             (Errorf ''failed to mutate resource'' (StatusError StatusReasonNotFound))]) \<and>
   handle defaultService (OnAdd (Unstructured pod1)) destinationWithPod1 =
     (destinationWithPod1,
      [FilterCall (gvr '''' ''v1'' ''pods'') Add pod1,
       MutateCall (gvr '''' ''v1'' ''pods'') Add (removeUnnecessaryMetadata pod1),
       CreateRequest (gvr '''' ''v1'' ''pods'') ''default''
         ((removeUnnecessaryMetadata pod1)\<lparr>ServiceAccountName := ''default''\<rparr>),
       LogErrorS (Errorf ''failed to create resource'' (StatusError StatusReasonAlreadyExists))
         ''Failed to create resource on destination cluster'']) \<and>
   handle defaultService (OnUpdate (Unstructured pod1) (Unstructured pod1Updated)) [] =
     ([], [FilterCall (gvr '''' ''v1'' ''pods'') Update pod1Updated,
           MutateCall (gvr '''' ''v1'' ''pods'') Update pod1Updated,
           UpdateRequest (gvr '''' ''v1'' ''pods'') ''default''
             (pod1Updated\<lparr>ServiceAccountName := ''default''\<rparr>),
           LogInfo ''Skipped to update resource on destination: ''
             (Errorf ''failed to create resource'' (StatusError StatusReasonNotFound))]) \<and>
   handle defaultService (OnDelete (Unstructured pod1)) [] =
     ([], [DeleteRequest (gvr '''' ''v1'' ''pods'') ''default'' ''pod-1'',
           LogInfo ''Skipped to delete resource on destination: ''
             (Errorf ''failed to delete resource'' (StatusError StatusReasonNotFound))]) \<and>
   length (filter isRequest
     (snd (handle defaultService (OnAdd (Unstructured pod1)) destinationWithPod1))) \<le> 1"
proof -
  let ?pods = "gvr '''' ''v1'' ''pods''"
  let ?pvs = "gvr '''' ''v1'' ''persistentvolumes''"
  let ?nss = "gvr '''' ''v1'' ''namespaces''"
  note resolution = handlers_log_and_drop
    [where s = defaultService and u = widget1 and d = "[]" and err = NoKindMatchError
       and old = "Unstructured widget1"]
  have h1: "findGVRForGVK defaultService (gvk widget1) = Inl NoKindMatchError"
    by (simp add: eval_defs more_eval_defs)
  from resolution h1
  have c1: "handle defaultService (OnAdd (Unstructured widget1)) [] =
       ([], [LogErrorS NoKindMatchError ''Failed to create resource on destination cluster'']) \<and>
     handle defaultService (OnUpdate (Unstructured widget1) (Unstructured widget1)) [] =
       ([], [LogErrorS NoKindMatchError ''Failed to update resource on destination cluster'']) \<and>
     handle defaultService (OnDelete (Unstructured widget1)) [] =
       ([], [LogErrorS NoKindMatchError ''Failed to delete resource on destination cluster''])"
    by (simp del: handle.simps)
  note addFilter = handlers_log_and_drop
    [where s = refusingService and u = namespace1 and d = "[]" and r = ?nss
       and f = refusingFilter and ok = False and err = "OtherError ''refused''"]
  have h2: "findGVRForGVK refusingService (gvk namespace1) = Inr ?nss \<and>
     filteringFunctions refusingService ?nss = Some refusingFilter \<and>
     refusingFilter namespace1 (clients refusingService) Add = (False, Some (OtherError ''refused''))"
    by (simp add: eval_defs more_eval_defs)
  from addFilter h2
  have c2: "handle refusingService (OnAdd (Unstructured namespace1)) [] =
     ([], [FilterCall ?nss Add namespace1,
           LogErrorS (OtherError ''refused'') ''Failed to create resource on destination cluster''])"
    by (simp del: handle.simps)
  note updateFilter = handlers_log_and_drop
    [where s = defaultService and u = pod1Undecodable and d = destinationWithPod1 and r = ?pods
       and f = filterPods and ok = False and err = ConversionError and old = "Unstructured pod1"]
  have h3: "findGVRForGVK defaultService (gvk pod1Undecodable) = Inr ?pods \<and>
     filteringFunctions defaultService ?pods = Some filterPods \<and>
     filterPods pod1Undecodable (clients defaultService) Update = (False, Some ConversionError)"
    by (simp add: eval_defs more_eval_defs)
  from updateFilter h3
  have c3: "handle defaultService (OnUpdate (Unstructured pod1) (Unstructured pod1Undecodable))
       destinationWithPod1 =
     (destinationWithPod1,
      [FilterCall ?pods Update pod1Undecodable,
       LogErrorS ConversionError ''Failed to update resource on destination cluster''])"
    by (simp del: handle.simps)
  note mutator = handlers_log_and_drop
    [where s = defaultService and u = pv1Orphan and d = "[]" and r = ?pvs
       and m = mutatePV and fe = "[]" and err = "StatusError StatusReasonNotFound"
       and old = "Unstructured pv1"]
  have h4: "findGVRForGVK defaultService (gvk pv1Orphan) = Inr ?pvs \<and>
     mutatingFunctions defaultService ?pvs = Some mutatePV \<and>
     runFilteringFunction defaultService ?pvs pv1Orphan Add = (None, []) \<and>
     runFilteringFunction defaultService ?pvs pv1Orphan Update = (None, []) \<and>
     mutatePV (removeUnnecessaryMetadata pv1Orphan) (clients defaultService) Add =
       Err (StatusError StatusReasonNotFound) \<and>
     mutatePV pv1Orphan (clients defaultService) Update = Err (StatusError StatusReasonNotFound)"
    by (simp add: eval_defs more_eval_defs)
  from mutator h4
  have c4: "handle defaultService (OnAdd (Unstructured pv1Orphan)) [] =
       ([], [MutateCall ?pvs Add (removeUnnecessaryMetadata pv1Orphan),
             LogErrorS (Errorf ''failed to mutate resource'' (StatusError StatusReasonNotFound))
               ''Failed to create resource on destination cluster'']) \<and>
     handle defaultService (OnUpdate (Unstructured pv1) (Unstructured pv1Orphan)) [] =
       ([], [MutateCall ?pvs Update pv1Orphan,
             LogInfo ''Skipped to update resource on destination: ''
               (Errorf ''failed to mutate resource'' (StatusError StatusReasonNotFound))])"
    by (simp del: handle.simps)
  note addWrite = handlers_log_and_drop
    [where s = defaultService and n = "OnAdd (Unstructured pod1)" and u = pod1
       and d = destinationWithPod1 and r = ?pods
       and fe = "[FilterCall ?pods Add pod1]"
       and me = "[MutateCall ?pods Add (removeUnnecessaryMetadata pod1)]"
       and obj = "(removeUnnecessaryMetadata pod1)\<lparr>ServiceAccountName := ''default''\<rparr>"
       and err = "StatusError StatusReasonAlreadyExists" and d' = destinationWithPod1]
  have h5: "findGVRForGVK defaultService (gvk pod1) = Inr ?pods \<and>
     runFilteringFunction defaultService ?pods pod1 Add = (None, [FilterCall ?pods Add pod1]) \<and>
     runMutatingFunction defaultService ?pods (removeUnnecessaryMetadata pod1) Add =
       (Ok ((removeUnnecessaryMetadata pod1)\<lparr>ServiceAccountName := ''default''\<rparr>),
        [MutateCall ?pods Add (removeUnnecessaryMetadata pod1)]) \<and>
     DestCreate (DestDynamicClient (clients defaultService)) ?pods ''default''
       ((removeUnnecessaryMetadata pod1)\<lparr>ServiceAccountName := ''default''\<rparr>) destinationWithPod1 =
       (Some (StatusError StatusReasonAlreadyExists), destinationWithPod1)"
    by (simp add: eval_defs more_eval_defs)
  have ns5: "GetNamespace pod1 = ''default''"
    by (simp add: eval_defs)
  from addWrite ns5 h5
  have c5: "handle defaultService (OnAdd (Unstructured pod1)) destinationWithPod1 =
     (destinationWithPod1,
      [FilterCall ?pods Add pod1,
       MutateCall ?pods Add (removeUnnecessaryMetadata pod1),
       CreateRequest ?pods ''default''
         ((removeUnnecessaryMetadata pod1)\<lparr>ServiceAccountName := ''default''\<rparr>),
       LogErrorS (Errorf ''failed to create resource'' (StatusError StatusReasonAlreadyExists))
         ''Failed to create resource on destination cluster''])"
    by (simp del: handle.simps)
  from addWrite
  have c8: "length (filter isRequest
     (snd (handle defaultService (OnAdd (Unstructured pod1)) destinationWithPod1))) \<le> 1"
    by blast
  note updateWrite = handlers_log_and_drop
    [where s = defaultService and u = pod1Updated and d = "[]" and r = ?pods
       and fe = "[FilterCall ?pods Update pod1Updated]"
       and me = "[MutateCall ?pods Update pod1Updated]"
       and obj = "pod1Updated\<lparr>ServiceAccountName := ''default''\<rparr>"
       and err = "StatusError StatusReasonNotFound" and d' = "[]" and old = "Unstructured pod1"]
  have h6: "findGVRForGVK defaultService (gvk pod1Updated) = Inr ?pods \<and>
     runFilteringFunction defaultService ?pods pod1Updated Update =
       (None, [FilterCall ?pods Update pod1Updated]) \<and>
     runMutatingFunction defaultService ?pods pod1Updated Update =
       (Ok (pod1Updated\<lparr>ServiceAccountName := ''default''\<rparr>),
        [MutateCall ?pods Update pod1Updated]) \<and>
     DestUpdate (DestDynamicClient (clients defaultService)) ?pods ''default''
       (pod1Updated\<lparr>ServiceAccountName := ''default''\<rparr>) [] =
       (Some (StatusError StatusReasonNotFound), [])"
    by (simp add: eval_defs more_eval_defs)
  have ns6: "GetNamespace pod1Updated = ''default''"
    by (simp add: eval_defs more_eval_defs)
  from updateWrite ns6 h6
  have c6: "handle defaultService (OnUpdate (Unstructured pod1) (Unstructured pod1Updated)) [] =
     ([], [FilterCall ?pods Update pod1Updated,
           MutateCall ?pods Update pod1Updated,
           UpdateRequest ?pods ''default'' (pod1Updated\<lparr>ServiceAccountName := ''default''\<rparr>),
           LogInfo ''Skipped to update resource on destination: ''
             (Errorf ''failed to create resource'' (StatusError StatusReasonNotFound))])"
    by (simp del: handle.simps)
  note deleteWrite = handlers_log_and_drop
    [where s = defaultService and u = pod1 and d = "[]" and r = ?pods
       and err = "StatusError StatusReasonNotFound" and d' = "[]"]
  have h7: "findGVRForGVK defaultService (gvk pod1) = Inr ?pods \<and>
     DestDelete (DestDynamicClient (clients defaultService)) ?pods ''default''
       ''pod-1'' [] = (Some (StatusError StatusReasonNotFound), [])"
    by (simp add: eval_defs more_eval_defs)
  have ns7: "GetNamespace pod1 = ''default''" "GetName pod1 = ''pod-1''"
    by (simp_all add: eval_defs)
  from deleteWrite ns7 h7
  have c7: "handle defaultService (OnDelete (Unstructured pod1)) [] =
     ([], [DeleteRequest ?pods ''default'' ''pod-1'',
           LogInfo ''Skipped to delete resource on destination: ''
             (Errorf ''failed to delete resource'' (StatusError StatusReasonNotFound))])"
    by (simp del: handle.simps)
  from h1 c1 h2 c2 h3 c3 h4 c4 c5 c6 c7 c8 show ?thesis by blast
qed

text \<open>
  Claim C8, as stated, fails: for a Delete notification that does not carry an
  \<^verbatim>\<open>*unstructured.Unstructured\<close> (the informer's tombstone for a missed delete), and
  for an object whose kind the REST mapper does not resolve, the handler logs the error
  and sends the destination nothing.
\<close>

theorem delete_not_attempted_for_tombstone_or_unknown_kind:
  "handle defaultService (OnDelete NotUnstructured) destinationWithPod1 =
     (destinationWithPod1,
      [LogError ''Failed to convert runtime.Object to *unstructured.Unstructured'']) \<and>
   findGVRForGVK defaultService (gvk widget1) = Inl NoKindMatchError \<and>
   handle defaultService (OnDelete (Unstructured widget1)) destinationWithPod1 =
     (destinationWithPod1,
      [LogErrorS NoKindMatchError ''Failed to delete resource on destination cluster''])"
  by (simp add: eval_defs more_eval_defs)

text \<open>
  Claim C8, amended. No handling of a Delete event calls a filtering or a mutating
  function, and what the handler does is the same whatever functions are registered.
  When the event carries an object whose kind resolves, the handler sends the
  destination exactly one request, the delete of the object's namespace and name,
  leaves the destination as that delete left it, and logs the delete's error if it
  returned one. When the kind does not resolve, or the notification carries no
  unstructured object, it logs the error and sends nothing.
\<close>

theorem delete_bypasses_pipeline:
  "(\<forall>x \<in> set (snd (handle s (OnDelete obj) d)). \<not> isPipelineCall x) \<and>
   handle (s\<lparr>mutatingFunctions := m, filteringFunctions := f\<rparr>) (OnDelete obj) d =
     handle s (OnDelete obj) d \<and>
   (findGVRForGVK s (gvk u) = Inr r \<longrightarrow>
      handle s (OnDelete (Unstructured u)) d =
        (snd (DestDelete (DestDynamicClient (clients s)) r (GetNamespace u) (GetName u) d),
         DeleteRequest r (GetNamespace u) (GetName u) #
         (case fst (DestDelete (DestDynamicClient (clients s)) r (GetNamespace u) (GetName u) d) of
            None \<Rightarrow> []
          | Some err \<Rightarrow>
              [if IsNotFound err
               then LogInfo ''Skipped to delete resource on destination: ''
                      (Errorf ''failed to delete resource'' err)
               else LogErrorS (Errorf ''failed to delete resource'' err)
                      ''Failed to delete resource on destination cluster'']))) \<and>
   (findGVRForGVK s (gvk u) = Inl err \<longrightarrow>
      handle s (OnDelete (Unstructured u)) d =
        (d, [if IsNotFound err
             then LogInfo ''Skipped to delete resource on destination: '' err
             else LogErrorS err ''Failed to delete resource on destination cluster''])) \<and>
   handle s (OnDelete NotUnstructured) d =
     (d, [LogError ''Failed to convert runtime.Object to *unstructured.Unstructured''])"
proof (intro conjI impI)
  show "\<forall>x \<in> set (snd (handle s (OnDelete obj) d)). \<not> isPipelineCall x"
    by (rule delete_no_pipeline_call)
  show "handle (s\<lparr>mutatingFunctions := m, filteringFunctions := f\<rparr>) (OnDelete obj) d =
     handle s (OnDelete obj) d"
    by (rule delete_ignores_registry)
  show "handle s (OnDelete NotUnstructured) d =
     (d, [LogError ''Failed to convert runtime.Object to *unstructured.Unstructured''])"
    by (rule delete_not_unstructured)
next
  assume res: "findGVRForGVK s (gvk u) = Inl err"
  from delete_resolution_error [OF res]
  show "handle s (OnDelete (Unstructured u)) d =
        (d, [if IsNotFound err
             then LogInfo ''Skipped to delete resource on destination: '' err
             else LogErrorS err ''Failed to delete resource on destination cluster''])" .
next
  assume res: "findGVRForGVK s (gvk u) = Inr r"
  obtain answer d' where del:
    "DestDelete (DestDynamicClient (clients s)) r (GetNamespace u) (GetName u) d = (answer, d')"
    by (cases "DestDelete (DestDynamicClient (clients s)) r (GetNamespace u) (GetName u) d")
  show "handle s (OnDelete (Unstructured u)) d =
        (snd (DestDelete (DestDynamicClient (clients s)) r (GetNamespace u) (GetName u) d),
         DeleteRequest r (GetNamespace u) (GetName u) #
         (case fst (DestDelete (DestDynamicClient (clients s)) r (GetNamespace u) (GetName u) d) of
            None \<Rightarrow> []
          | Some err \<Rightarrow>
              [if IsNotFound err
               then LogInfo ''Skipped to delete resource on destination: ''
                      (Errorf ''failed to delete resource'' err)
               else LogErrorS (Errorf ''failed to delete resource'' err)
                      ''Failed to delete resource on destination cluster'']))"
  proof (cases answer)
    case None
    with del delete_write_ok [OF res] show ?thesis by (simp del: handle.simps)
  next
    case (Some e)
    with del delete_write_error [OF res] show ?thesis by (simp del: handle.simps)
  qed
qed

theorem delete_bypasses_pipeline_witness:
  "findGVRForGVK defaultService (gvk pod1Scheduled) = Inr (gvr '''' ''v1'' ''pods'') \<and>
   handle defaultService (OnDelete (Unstructured pod1Scheduled)) destinationWithPod1 =
     ([], [DeleteRequest (gvr '''' ''v1'' ''pods'') ''default'' ''pod-1'']) \<and>
   \<not> isPipelineCall (DeleteRequest (gvr '''' ''v1'' ''pods'') ''default'' ''pod-1'') \<and>
   handle (defaultService\<lparr>mutatingFunctions := Map.empty, filteringFunctions := Map.empty\<rparr>)
      (OnDelete (Unstructured pod1Scheduled)) destinationWithPod1 =
     ([], [DeleteRequest (gvr '''' ''v1'' ''pods'') ''default'' ''pod-1'']) \<and>
   handle defaultService (OnDelete (Unstructured pod1Scheduled)) [] =
     ([], [DeleteRequest (gvr '''' ''v1'' ''pods'') ''default'' ''pod-1'',
           LogInfo ''Skipped to delete resource on destination: ''
             (Errorf ''failed to delete resource'' (StatusError StatusReasonNotFound))]) \<and>
   findGVRForGVK defaultService (gvk widget1) = Inl NoKindMatchError \<and>
   handle defaultService (OnDelete (Unstructured widget1)) destinationWithPod1 =
     (destinationWithPod1,
      [LogErrorS NoKindMatchError ''Failed to delete resource on destination cluster''])"
proof -
  note present = delete_bypasses_pipeline
    [where s = defaultService and obj = "Unstructured pod1Scheduled" and d = destinationWithPod1
       and u = pod1Scheduled and r = "gvr '''' ''v1'' ''pods''" and m = Map.empty and f = Map.empty]
  note missing = delete_bypasses_pipeline
    [where s = defaultService and obj = "Unstructured pod1Scheduled" and d = "[]"
       and u = pod1Scheduled and r = "gvr '''' ''v1'' ''pods''"]
  note unknown = delete_bypasses_pipeline
    [where s = defaultService and d = destinationWithPod1 and u = widget1
       and err = NoKindMatchError]
  have res: "findGVRForGVK defaultService (gvk pod1Scheduled) = Inr (gvr '''' ''v1'' ''pods'')"
    by (simp add: eval_defs)
  have names: "GetNamespace pod1Scheduled = ''default''" "GetName pod1Scheduled = ''pod-1''"
    by (simp_all add: eval_defs)
  have del: "DestDelete (DestDynamicClient (clients defaultService)) (gvr '''' ''v1'' ''pods'')
               ''default'' ''pod-1'' destinationWithPod1 = (None, [])"
    by (simp add: eval_defs destinationWithPod1_def)
  have del0: "DestDelete (DestDynamicClient (clients defaultService)) (gvr '''' ''v1'' ''pods'')
               ''default'' ''pod-1'' [] = (Some (StatusError StatusReasonNotFound), [])"
    by (simp add: eval_defs)
  have nores: "findGVRForGVK defaultService (gvk widget1) = Inl NoKindMatchError"
    by (simp add: eval_defs more_eval_defs)
  from present res names del
  have sent: "handle defaultService (OnDelete (Unstructured pod1Scheduled)) destinationWithPod1 =
     ([], [DeleteRequest (gvr '''' ''v1'' ''pods'') ''default'' ''pod-1''])"
    by (simp del: handle.simps)
  from present sent
  have quiet: "\<not> isPipelineCall (DeleteRequest (gvr '''' ''v1'' ''pods'') ''default'' ''pod-1'')"
    by (simp del: handle.simps)
  from present sent
  have same: "handle (defaultService\<lparr>mutatingFunctions := Map.empty, filteringFunctions := Map.empty\<rparr>)
      (OnDelete (Unstructured pod1Scheduled)) destinationWithPod1 =
     ([], [DeleteRequest (gvr '''' ''v1'' ''pods'') ''default'' ''pod-1''])"
    by (simp del: handle.simps)
  from missing res names del0
  have skipped: "handle defaultService (OnDelete (Unstructured pod1Scheduled)) [] =
     ([], [DeleteRequest (gvr '''' ''v1'' ''pods'') ''default'' ''pod-1'',
           LogInfo ''Skipped to delete resource on destination: ''
             (Errorf ''failed to delete resource'' (StatusError StatusReasonNotFound))])"
    by (simp del: handle.simps)
  from unknown nores
  have dropped: "handle defaultService (OnDelete (Unstructured widget1)) destinationWithPod1 =
     (destinationWithPod1,
      [LogErrorS NoKindMatchError ''Failed to delete resource on destination cluster''])"
    by (simp del: handle.simps)
  from res sent quiet same skipped nores dropped show ?thesis by blast
qed

text \<open>
  Claim C9. \<^verbatim>\<open>mutatePV\<close> panics exactly on an object that converts to a typed
  volume, is in phase \<^verbatim>\<open>Bound\<close> and has no \<^verbatim>\<open>spec.claimRef\<close>: the field is
  dereferenced without a nil check.
\<close>

theorem mutatePV_panics_without_claimRef:
  "(mutatePV resource cl event = Panic) =
     (decodable resource \<and> Phase resource = VolumeBound \<and> ClaimRef resource = None)"
  by (auto simp: mutatePV_def FromUnstructured_def split: sum.splits option.splits)

theorem mutatePV_panics_without_claimRef_witness:
  "decodable pv1NoClaimRef \<and> Phase pv1NoClaimRef = VolumeBound \<and> ClaimRef pv1NoClaimRef = None \<and>
   mutatePV pv1NoClaimRef (clients defaultService) Add = Panic \<and>
   ClaimRef pv1 = Some claimRef1 \<and>
   mutatePV pv1 (clients defaultService) Add \<noteq> Panic"
proof -
  have pre: "decodable pv1NoClaimRef \<and> Phase pv1NoClaimRef = VolumeBound \<and> ClaimRef pv1NoClaimRef = None"
    by (simp add: pv1NoClaimRef_def pv1_def coreObject_def VolumeBound_def)
  have ref: "ClaimRef pv1 = Some claimRef1"
    by (simp add: pv1_def)
  from pre mutatePV_panics_without_claimRef [of pv1NoClaimRef "clients defaultService" Add]
  have "mutatePV pv1NoClaimRef (clients defaultService) Add = Panic"
    by simp
  moreover from ref mutatePV_panics_without_claimRef [of pv1 "clients defaultService" Add]
  have "mutatePV pv1 (clients defaultService) Add \<noteq> Panic"
    by simp
  ultimately show ?thesis using pre ref by blast
qed

text \<open>
  Claim C10. On the update path no metadata is removed: the mutating function is called
  on the object as observed, and the object of the \<^verbatim>\<open>Update\<close> request is the observed
  object itself (no mutating function registered) or what the mutating function returned
  for it. With no mutating function or a mandatory one, UID, generation and
  resourceVersion reach the destination as the source had them.
\<close>

theorem update_forwards_server_metadata:
  assumes "updateResourceOnDestinationCluster s resource d = (ret, d', effs)"
    and "UpdateRequest r ns obj \<in> set effs"
  shows "findGVRForGVK s (gvk resource) = Inr r \<and> ns = GetNamespace resource \<and>
     (\<forall>g e x. MutateCall g e x \<in> set effs \<longrightarrow> x = resource) \<and>
     (case mutatingFunctions s r of
        None \<Rightarrow> obj = resource
      | Some f \<Rightarrow> f resource (clients s) Update = Ok obj) \<and>
     (mutatingFunctions s r = None \<or> mutatingFunctions s r = Some mutatePV \<or>
      mutatingFunctions s r = Some mutatePods \<longrightarrow>
        GetUID obj = GetUID resource \<and> GetGeneration obj = GetGeneration resource \<and>
        GetResourceVersion obj = GetResourceVersion resource)"
proof -
  from update_request_shape [OF assms] obtain fe me where
    r: "findGVRForGVK s (gvk resource) = Inr r" and ns: "ns = GetNamespace resource" and
    f: "runFilteringFunction s r resource Update = (None, fe)" and
    m: "runMutatingFunction s r resource Update = (Ok obj, me)" and
    effs: "effs = fe @ me @ [UpdateRequest r ns obj]"
    by blast
  have calls: "\<forall>g e x. MutateCall g e x \<in> set effs \<longrightarrow> x = resource"
    using runFilteringFunction_effects [OF f] runMutatingFunction_effects [OF m] effs by auto
  have sel: "case mutatingFunctions s r of
        None \<Rightarrow> obj = resource
      | Some f \<Rightarrow> f resource (clients s) Update = Ok obj"
    using runMutatingFunction_Ok [OF m] .
  have keep: "GetUID obj = GetUID resource \<and> GetGeneration obj = GetGeneration resource \<and>
        GetResourceVersion obj = GetResourceVersion resource"
    if "mutatingFunctions s r = None \<or> mutatingFunctions s r = Some mutatePV \<or>
        mutatingFunctions s r = Some mutatePods"
  proof -
    from that consider (none) "mutatingFunctions s r = None"
      | (pv) "mutatingFunctions s r = Some mutatePV"
      | (pods) "mutatingFunctions s r = Some mutatePods" by argo
    then show ?thesis
    proof cases
      case none
      with sel show ?thesis by simp
    next
      case pv
      with sel have "mutatePV resource (clients s) Update = Ok obj" by simp
      from mutatePV_keeps_metadata [OF this] show ?thesis .
    next
      case pods
      with sel have "mutatePods resource (clients s) Update = Ok obj" by simp
      from mutatePods_keeps_metadata [OF this] show ?thesis .
    qed
  qed
  from r ns calls sel keep show ?thesis by blast
qed

theorem update_forwards_server_metadata_witness:
  "updateResourceOnDestinationCluster defaultService pod1Updated destinationWithPod1 =
     (Ok (),
      [((gvr '''' ''v1'' ''pods'', ''default'', ''pod-1''),
        pod1Updated\<lparr>ServiceAccountName := ''default''\<rparr>)],
      [FilterCall (gvr '''' ''v1'' ''pods'') Update pod1Updated,
       MutateCall (gvr '''' ''v1'' ''pods'') Update pod1Updated,
       UpdateRequest (gvr '''' ''v1'' ''pods'') ''default''
         (pod1Updated\<lparr>ServiceAccountName := ''default''\<rparr>)]) \<and>
   mutatingFunctions defaultService (gvr '''' ''v1'' ''pods'') = Some mutatePods \<and>
   GetUID (pod1Updated\<lparr>ServiceAccountName := ''default''\<rparr>) = ''6f1a'' \<and>
   GetGeneration (pod1Updated\<lparr>ServiceAccountName := ''default''\<rparr>) = 1 \<and>
   GetResourceVersion (pod1Updated\<lparr>ServiceAccountName := ''default''\<rparr>) = ''830''"
proof -
  let ?obj = "pod1Updated\<lparr>ServiceAccountName := ''default''\<rparr>"
  let ?effs = "[FilterCall (gvr '''' ''v1'' ''pods'') Update pod1Updated,
       MutateCall (gvr '''' ''v1'' ''pods'') Update pod1Updated,
       UpdateRequest (gvr '''' ''v1'' ''pods'') ''default'' ?obj]"
  have run: "updateResourceOnDestinationCluster defaultService pod1Updated destinationWithPod1 =
     (Ok (), [((gvr '''' ''v1'' ''pods'', ''default'', ''pod-1''), ?obj)], ?effs)"
    by (rule update_pod1)
  have req: "UpdateRequest (gvr '''' ''v1'' ''pods'') ''default'' ?obj \<in> set ?effs"
    by simp
  have reg: "mutatingFunctions defaultService (gvr '''' ''v1'' ''pods'') = Some mutatePods"
    by (simp add: defaultService_def New_def initialGlobals_def noOptions_def gvr_def Let_def)
  have src: "GetUID pod1Updated = ''6f1a'' \<and> GetGeneration pod1Updated = 1 \<and>
     GetResourceVersion pod1Updated = ''830''"
    by (simp add: pod1Updated_def pod1_def accessor_defs)
  from update_forwards_server_metadata [OF run req] reg
  have "GetUID ?obj = GetUID pod1Updated \<and> GetGeneration ?obj = GetGeneration pod1Updated \<and>
        GetResourceVersion ?obj = GetResourceVersion pod1Updated"
    by blast
  with src have "GetUID ?obj = ''6f1a'' \<and> GetGeneration ?obj = 1 \<and> GetResourceVersion ?obj = ''830''"
    by simp
  with run reg show ?thesis by blast
qed

end
